theory Spec2Isabelle
  imports Main
begin

section \<open>Python values, exceptions and the configuration bundle\<close>

text \<open>
  The values that travel through \<^verbatim>\<open>crud.py\<close>: documents, queries and update
  specifications are Python objects; the methods test them with
  \<^verbatim>\<open>isinstance(x, dict)\<close>. A \<^verbatim>\<open>dict\<close> is kept as an association list.
\<close>

datatype pyval =
    PNone
  | PBool bool
  | PInt int
  | PStr string
  | PList "pyval list"
  | PDict "(string \<times> pyval) list"

fun isinstance_dict :: "pyval \<Rightarrow> bool" where
  "isinstance_dict (PDict kvs) = True"
| "isinstance_dict v = False"

text \<open>
  Exceptions are values. \<open>PyMongoError m\<close> stands for any instance of
  \<^verbatim>\<open>pymongo.errors.PyMongoError\<close> (the class or a subclass), with \<open>m\<close> its
  \<^verbatim>\<open>str(e)\<close>; \<open>RuntimeError m c\<close> carries the cause of
  \<^verbatim>\<open>raise ... from e\<close>; \<open>OtherException cls m\<close> is an exception of any
  other class.
\<close>

datatype pyexn =
    ValueError string
  | RuntimeError string "pyexn option"
  | PyMongoError string
  | OtherException string string

text \<open>The dataclass \<^verbatim>\<open>MongoConfig\<close>, with the field types it declares.\<close>

record MongoConfig =
  username :: string
  password :: string
  host :: string
  port :: int
  authSource :: string
  tls :: bool
  replicaSet :: "string option"

definition default_MongoConfig :: MongoConfig where
  "default_MongoConfig =
     \<lparr>username = '''', password = '''', host = ''localhost'', port = 27017,
      authSource = ''aac'', tls = False, replicaSet = None\<rparr>"

section \<open>The driver, as the adapter sees it\<close>

text \<open>
  The result objects of the driver; only the attributes the adapter reads.
  \<^verbatim>\<open>inserted_id\<close> is \<open>PNone\<close> when no identifier was assigned; the counts are
  optional because the adapter guards them with \<^verbatim>\<open>or 0\<close>.
\<close>

record InsertOneResult =
  acknowledged :: bool
  inserted_id :: pyval

record UpdateResult =
  modified_count :: "int option"

record DeleteResult =
  deleted_count :: "int option"

text \<open>
  A driver call runs against the outside world \<open>'w\<close> (the server and the
  connection) and either returns or raises.
\<close>

type_synonym ('a, 'w) call = "'w \<Rightarrow> (pyexn + 'a) \<times> 'w"

text \<open>
  PyMongo is not part of the repository, so the adapter is modelled over an
  arbitrary driver: one field for each call \<^verbatim>\<open>crud.py\<close> makes.
  \<open>'cl\<close>, \<open>'db\<close> and \<open>'co\<close> are the client, database and collection
  handles. \<^verbatim>\<open>find\<close> returns a cursor, which is itself a call: the documents
  are fetched when \<^verbatim>\<open>list(cursor)\<close> runs it.
\<close>

record ('cl, 'db, 'co, 'w) driver =
  MongoClient :: "(string \<rightharpoonup> pyval) \<Rightarrow> ('cl, 'w) call"
  admin_command :: "'cl \<Rightarrow> string \<Rightarrow> (unit, 'w) call"
  client_getitem :: "'cl \<Rightarrow> string \<Rightarrow> ('db, 'w) call"
  database_getitem :: "'db \<Rightarrow> string \<Rightarrow> ('co, 'w) call"
  insert_one :: "'co \<Rightarrow> pyval \<Rightarrow> (InsertOneResult, 'w) call"
  find :: "'co \<Rightarrow> pyval \<Rightarrow> ((pyval list, 'w) call, 'w) call"
  update_one :: "'co \<Rightarrow> pyval \<Rightarrow> pyval \<Rightarrow> (UpdateResult, 'w) call"
  update_many :: "'co \<Rightarrow> pyval \<Rightarrow> pyval \<Rightarrow> (UpdateResult, 'w) call"
  delete_one :: "'co \<Rightarrow> pyval \<Rightarrow> (DeleteResult, 'w) call"
  delete_many :: "'co \<Rightarrow> pyval \<Rightarrow> (DeleteResult, 'w) call"

section \<open>The adapter object and the program state\<close>

text \<open>The four attributes \<^verbatim>\<open>__init__\<close> gives a \<^verbatim>\<open>CRUD\<close> object.\<close>

record ('cl, 'co) crud =
  client :: "'cl option"
  collection :: "'co option"
  db_name :: string
  collection_name :: string

text \<open>
  What a method can read and change: the object \<^verbatim>\<open>self\<close>, the lines
  printed so far, and the world behind the driver.
\<close>

record ('cl, 'co, 'w) pystate =
  self :: "('cl, 'co) crud"
  stdout :: "string list"
  world :: 'w

type_synonym ('a, 'cl, 'co, 'w) py = "('cl, 'co, 'w) pystate \<Rightarrow> (pyexn + 'a) \<times> ('cl, 'co, 'w) pystate"

definition py_return :: "'a \<Rightarrow> ('a, 'cl, 'co, 'w) py" where
  "py_return x s = (Inr x, s)"

definition py_raise :: "pyexn \<Rightarrow> ('a, 'cl, 'co, 'w) py" where
  "py_raise e s = (Inl e, s)"

definition py_bind :: "('a, 'cl, 'co, 'w) py \<Rightarrow> ('a \<Rightarrow> ('b, 'cl, 'co, 'w) py) \<Rightarrow> ('b, 'cl, 'co, 'w) py" where
  "py_bind m f s = (case m s of (Inl e, s') \<Rightarrow> (Inl e, s') | (Inr x, s') \<Rightarrow> f x s')"

text \<open>
  \<^verbatim>\<open>try: body except errors.PyMongoError as e: handler\<close>. Only a
  \<open>PyMongoError\<close> enters the handler, which receives \<^verbatim>\<open>str(e)\<close>; every
  other exception leaves the block as it is.
\<close>

definition try_except_PyMongoError ::
  "('a, 'cl, 'co, 'w) py \<Rightarrow> (string \<Rightarrow> ('a, 'cl, 'co, 'w) py) \<Rightarrow> ('a, 'cl, 'co, 'w) py" where
  "try_except_PyMongoError body handler s =
     (case body s of
        (Inl (PyMongoError m), s') \<Rightarrow> handler m s'
      | (Inl e, s') \<Rightarrow> (Inl e, s')
      | (Inr x, s') \<Rightarrow> (Inr x, s'))"

definition driver_call :: "('a, 'w) call \<Rightarrow> ('a, 'cl, 'co, 'w) py" where
  "driver_call f s = (case f (world s) of (r, w') \<Rightarrow> (r, s\<lparr>world := w'\<rparr>))"

definition print :: "string \<Rightarrow> (unit, 'cl, 'co, 'w) py" where
  "print line s = (Inr (), s\<lparr>stdout := stdout s @ [line]\<rparr>)"

definition check_dict :: "pyval \<Rightarrow> string \<Rightarrow> (unit, 'cl, 'co, 'w) py" where
  "check_dict v msg = (if \<not> isinstance_dict v then py_raise (ValueError msg) else py_return ())"

section \<open>Connection establishment\<close>

text \<open>
  The dictionary \<^verbatim>\<open>client_kwargs\<close> that \<^verbatim>\<open>_connect\<close> builds. A Python
  string is true when it is not empty, \<^verbatim>\<open>None\<close> is false.
\<close>

definition truthy_str :: "string \<Rightarrow> bool" where
  "truthy_str x = (x \<noteq> [])"

definition truthy_opt_str :: "string option \<Rightarrow> bool" where
  "truthy_opt_str x = (case x of None \<Rightarrow> False | Some r \<Rightarrow> truthy_str r)"

definition client_kwargs :: "MongoConfig \<Rightarrow> (string \<rightharpoonup> pyval)" where
  "client_kwargs config =
     (let kw0 = [''host'' \<mapsto> PStr (host config),
                 ''port'' \<mapsto> PInt (port config),
                 ''tls'' \<mapsto> PBool (tls config),
                 ''connectTimeoutMS'' \<mapsto> PInt 5000,
                 ''serverSelectionTimeoutMS'' \<mapsto> PInt 5000];
          kw1 = (if truthy_str (username config) \<and> truthy_str (password config)
                 then kw0(''username'' \<mapsto> PStr (username config),
                          ''password'' \<mapsto> PStr (password config),
                          ''authSource'' \<mapsto> PStr (authSource config))
                 else kw0)
      in (if truthy_opt_str (replicaSet config)
          then kw1(''replicaSet'' \<mapsto> PStr (the (replicaSet config)))
          else kw1))"

definition set_client :: "'cl \<Rightarrow> (unit, 'cl, 'co, 'w) py" where
  "set_client c s = (Inr (), s\<lparr>self := (self s)\<lparr>client := Some c\<rparr>\<rparr>)"

definition set_collection :: "'co \<Rightarrow> (unit, 'cl, 'co, 'w) py" where
  "set_collection c s = (Inr (), s\<lparr>self := (self s)\<lparr>collection := Some c\<rparr>\<rparr>)"

definition connect :: "('cl, 'db, 'co, 'w) driver \<Rightarrow> MongoConfig \<Rightarrow> (unit, 'cl, 'co, 'w) py" where
  "connect drv config =
     try_except_PyMongoError
       (py_bind (driver_call (MongoClient drv (client_kwargs config))) (\<lambda>cl.
        py_bind (set_client cl) (\<lambda>_.
        py_bind (driver_call (admin_command drv cl ''ping'')) (\<lambda>_.
        py_bind (\<lambda>s. driver_call (client_getitem drv cl (db_name (self s))) s) (\<lambda>db.
        py_bind (\<lambda>s. driver_call (database_getitem drv db (collection_name (self s))) s) (\<lambda>co.
        set_collection co))))))
       (\<lambda>e. py_raise (RuntimeError (''[MongoDB] Connection failed: '' @ e) (Some (PyMongoError e))))"

text \<open>
  \<^verbatim>\<open>__init__\<close>: the two handles start as \<^verbatim>\<open>None\<close>, the names are stored,
  then \<^verbatim>\<open>_connect\<close> runs.
\<close>

definition init :: "('cl, 'db, 'co, 'w) driver \<Rightarrow> MongoConfig \<Rightarrow> string \<Rightarrow> string \<Rightarrow> (unit, 'cl, 'co, 'w) py" where
  "init drv config dbn colln s =
     connect drv config
       (s\<lparr>self := \<lparr>client = None, collection = None, db_name = dbn, collection_name = colln\<rparr>\<rparr>)"

text \<open>
  The expression \<^verbatim>\<open>CRUD(config, db_name, collection_name)\<close>: the caller gets
  the object when \<^verbatim>\<open>__init__\<close> returns, and the exception otherwise.
\<close>

definition CRUD :: "('cl, 'db, 'co, 'w) driver \<Rightarrow> MongoConfig \<Rightarrow> string \<Rightarrow> string \<Rightarrow>
    ('cl, 'co, 'w) pystate \<Rightarrow> (pyexn + ('cl, 'co) crud) \<times> ('cl, 'co, 'w) pystate" where
  "CRUD drv config dbn colln s =
     (case init drv config dbn colln s of
        (Inl e, s') \<Rightarrow> (Inl e, s')
      | (Inr u, s') \<Rightarrow> (Inr (self s'), s'))"

section \<open>The public operations\<close>

definition ensure_collection :: "('co, 'cl, 'co, 'w) py" where
  "ensure_collection s =
     (case collection (self s) of
        None \<Rightarrow> py_raise (RuntimeError ''[MongoDB] Collection is not initialized.'' None) s
      | Some c \<Rightarrow> py_return c s)"

definition create :: "('cl, 'db, 'co, 'w) driver \<Rightarrow> pyval \<Rightarrow> (bool, 'cl, 'co, 'w) py" where
  "create drv document =
     try_except_PyMongoError
       (py_bind (check_dict document ''create() expects a dict document.'') (\<lambda>_.
        py_bind ensure_collection (\<lambda>coll.
        py_bind (driver_call (insert_one drv coll document)) (\<lambda>result.
        py_return (acknowledged result \<and> inserted_id result \<noteq> PNone)))))
       (\<lambda>e. py_bind (print (''[MongoDB][CREATE] Error: '' @ e)) (\<lambda>_. py_return False))"

definition read :: "('cl, 'db, 'co, 'w) driver \<Rightarrow> pyval \<Rightarrow> (pyval list, 'cl, 'co, 'w) py" where
  "read drv query =
     try_except_PyMongoError
       (py_bind (check_dict query ''read() expects a dict query.'') (\<lambda>_.
        py_bind ensure_collection (\<lambda>coll.
        py_bind (driver_call (find drv coll query)) (\<lambda>cursor.
        driver_call cursor))))
       (\<lambda>e. py_bind (print (''[MongoDB][READ] Error: '' @ e)) (\<lambda>_. py_return []))"

text \<open>\<^verbatim>\<open>int(c or 0)\<close> for an optional count \<open>c\<close>: \<^verbatim>\<open>None\<close> and \<open>0\<close> are false.\<close>

definition int_or_0 :: "int option \<Rightarrow> int" where
  "int_or_0 c = (case c of None \<Rightarrow> 0 | Some n \<Rightarrow> if n \<noteq> 0 then n else 0)"

definition update_spec_msg :: string where
  "update_spec_msg =
     ''update() expects a dict update spec (e.g., {'' @ [CHR 0x27] @ ''$set'' @ [CHR 0x27] @ '': {...}}).''"

definition update :: "('cl, 'db, 'co, 'w) driver \<Rightarrow> pyval \<Rightarrow> pyval \<Rightarrow> bool \<Rightarrow> (int, 'cl, 'co, 'w) py" where
  "update drv query new_values many =
     try_except_PyMongoError
       (py_bind (check_dict query ''update() expects a dict query.'') (\<lambda>_.
        py_bind (check_dict new_values update_spec_msg) (\<lambda>_.
        py_bind ensure_collection (\<lambda>coll.
        py_bind (if many then driver_call (update_many drv coll query new_values)
                 else driver_call (update_one drv coll query new_values)) (\<lambda>result.
        py_return (int_or_0 (modified_count result)))))))
       (\<lambda>e. py_bind (print (''[MongoDB][UPDATE] Error: '' @ e)) (\<lambda>_. py_return 0))"

definition delete :: "('cl, 'db, 'co, 'w) driver \<Rightarrow> pyval \<Rightarrow> bool \<Rightarrow> (int, 'cl, 'co, 'w) py" where
  "delete drv query many =
     try_except_PyMongoError
       (py_bind (check_dict query ''delete() expects a dict query.'') (\<lambda>_.
        py_bind ensure_collection (\<lambda>coll.
        py_bind (if many then driver_call (delete_many drv coll query)
                 else driver_call (delete_one drv coll query)) (\<lambda>result.
        py_return (int_or_0 (deleted_count result))))))
       (\<lambda>e. py_bind (print (''[MongoDB][DELETE] Error: '' @ e)) (\<lambda>_. py_return 0))"

section \<open>Sequences of calls\<close>

text \<open>
  A caller's call of one public method. \<open>run_op\<close> keeps the state the call
  leaves behind, whether it returned or raised; \<open>run_ops\<close> makes the calls of
  a list one after the other.
\<close>

datatype op =
    Create pyval
  | Read pyval
  | Update pyval pyval bool
  | Delete pyval bool

fun run_op :: "('cl, 'db, 'co, 'w) driver \<Rightarrow> op \<Rightarrow> ('cl, 'co, 'w) pystate \<Rightarrow> ('cl, 'co, 'w) pystate" where
  "run_op drv (Create d) s = snd (create drv d s)"
| "run_op drv (Read q) s = snd (read drv q s)"
| "run_op drv (Update q nv many) s = snd (update drv q nv many s)"
| "run_op drv (Delete q many) s = snd (delete drv q many s)"

fun run_ops :: "('cl, 'db, 'co, 'w) driver \<Rightarrow> op list \<Rightarrow> ('cl, 'co, 'w) pystate \<Rightarrow> ('cl, 'co, 'w) pystate" where
  "run_ops drv [] s = s"
| "run_ops drv (x # xs) s = run_ops drv xs (run_op drv x s)"

section \<open>An in-memory driver\<close>

text \<open>
  Modelled from the spec: PyMongo and the server are not part of the
  repository. This driver keeps one collection as a list of documents and
  does what the specification says of the driver's calls: an insert stores
  the document and assigns an identifier, a find yields every match in
  stored order, the \<^verbatim>\<open>_one\<close> calls act on the first match only, the
  \<^verbatim>\<open>_many\<close> calls on every match, and the counts are the numbers of
  records changed or removed. What a query matches and what an update
  specification does to a record are parameters (\<open>matches\<close>, \<open>upd\<close>).
  \<open>calls\<close> counts the requests sent to the server, and \<open>fault = Some k\<close> makes
  request number \<open>k\<close> fail with a \<open>PyMongoError\<close>.
\<close>

record mem_world =
  fault :: "nat option"
  calls :: nat
  docs :: "pyval list"

definition request :: "('a, mem_world) call \<Rightarrow> ('a, mem_world) call" where
  "request f w =
     (if fault w = Some (calls w)
      then (Inl (PyMongoError ''connection lost''), w\<lparr>calls := Suc (calls w)\<rparr>)
      else f (w\<lparr>calls := Suc (calls w)\<rparr>))"

fun remove_first :: "('a \<Rightarrow> bool) \<Rightarrow> 'a list \<Rightarrow> 'a list" where
  "remove_first P [] = []"
| "remove_first P (x # xs) = (if P x then xs else x # remove_first P xs)"

fun change_first :: "('a \<Rightarrow> bool) \<Rightarrow> ('a \<Rightarrow> 'a) \<Rightarrow> 'a list \<Rightarrow> 'a list" where
  "change_first P f [] = []"
| "change_first P f (x # xs) = (if P x then f x # xs else x # change_first P f xs)"

definition mem_insert_one :: "pyval \<Rightarrow> (InsertOneResult, mem_world) call" where
  "mem_insert_one d =
     request (\<lambda>w. (Inr \<lparr>acknowledged = True, inserted_id = PInt (int (length (docs w)))\<rparr>,
                    w\<lparr>docs := docs w @ [d]\<rparr>))"

definition mem_find :: "(pyval \<Rightarrow> pyval \<Rightarrow> bool) \<Rightarrow> pyval \<Rightarrow> ((pyval list, mem_world) call, mem_world) call" where
  "mem_find matches q w = (Inr (request (\<lambda>w'. (Inr (filter (matches q) (docs w')), w'))), w)"

definition mem_update_one ::
  "(pyval \<Rightarrow> pyval \<Rightarrow> bool) \<Rightarrow> (pyval \<Rightarrow> pyval \<Rightarrow> pyval) \<Rightarrow> pyval \<Rightarrow> pyval \<Rightarrow> (UpdateResult, mem_world) call" where
  "mem_update_one matches upd q u =
     request (\<lambda>w. (Inr \<lparr>modified_count =
                          Some (int (length (take 1 (filter (\<lambda>d. upd u d \<noteq> d) (take 1 (filter (matches q) (docs w)))))))\<rparr>,
                    w\<lparr>docs := change_first (matches q) (upd u) (docs w)\<rparr>))"

definition mem_update_many ::
  "(pyval \<Rightarrow> pyval \<Rightarrow> bool) \<Rightarrow> (pyval \<Rightarrow> pyval \<Rightarrow> pyval) \<Rightarrow> pyval \<Rightarrow> pyval \<Rightarrow> (UpdateResult, mem_world) call" where
  "mem_update_many matches upd q u =
     request (\<lambda>w. (Inr \<lparr>modified_count =
                          Some (int (length (filter (\<lambda>d. matches q d \<and> upd u d \<noteq> d) (docs w))))\<rparr>,
                    w\<lparr>docs := map (\<lambda>d. if matches q d then upd u d else d) (docs w)\<rparr>))"

definition mem_delete_one :: "(pyval \<Rightarrow> pyval \<Rightarrow> bool) \<Rightarrow> pyval \<Rightarrow> (DeleteResult, mem_world) call" where
  "mem_delete_one matches q =
     request (\<lambda>w. (Inr \<lparr>deleted_count = Some (int (length (take 1 (filter (matches q) (docs w)))))\<rparr>,
                    w\<lparr>docs := remove_first (matches q) (docs w)\<rparr>))"

definition mem_delete_many :: "(pyval \<Rightarrow> pyval \<Rightarrow> bool) \<Rightarrow> pyval \<Rightarrow> (DeleteResult, mem_world) call" where
  "mem_delete_many matches q =
     request (\<lambda>w. (Inr \<lparr>deleted_count = Some (int (length (filter (matches q) (docs w))))\<rparr>,
                    w\<lparr>docs := filter (\<lambda>d. \<not> matches q d) (docs w)\<rparr>))"

definition mem_driver ::
  "(pyval \<Rightarrow> pyval \<Rightarrow> bool) \<Rightarrow> (pyval \<Rightarrow> pyval \<Rightarrow> pyval) \<Rightarrow> (unit, string, string \<times> string, mem_world) driver" where
  "mem_driver matches upd =
     \<lparr>MongoClient = (\<lambda>kw. request (\<lambda>w. (Inr (), w))),
      admin_command = (\<lambda>cl cmd. request (\<lambda>w. (Inr (), w))),
      client_getitem = (\<lambda>cl n w. (Inr n, w)),
      database_getitem = (\<lambda>db n w. (Inr (db, n), w)),
      insert_one = (\<lambda>co. mem_insert_one),
      find = (\<lambda>co. mem_find matches),
      update_one = (\<lambda>co. mem_update_one matches upd),
      update_many = (\<lambda>co. mem_update_many matches upd),
      delete_one = (\<lambda>co. mem_delete_one matches),
      delete_many = (\<lambda>co. mem_delete_many matches)\<rparr>"

text \<open>
  A query language and an update language small enough to run: a query
  matches the records that hold each of its fields with the same value, and
  \<^verbatim>\<open>{"$set": {...}}\<close> stores the listed fields.
\<close>

fun assign :: "string \<Rightarrow> pyval \<Rightarrow> (string \<times> pyval) list \<Rightarrow> (string \<times> pyval) list" where
  "assign k v [] = [(k, v)]"
| "assign k v ((k', v') # kvs) = (if k = k' then (k, v) # kvs else (k', v') # assign k v kvs)"

fun field_match :: "pyval \<Rightarrow> pyval \<Rightarrow> bool" where
  "field_match (PDict qs) (PDict ds) = list_all (\<lambda>(k, v). map_of ds k = Some v) qs"
| "field_match q d = False"

fun set_fields :: "pyval \<Rightarrow> pyval \<Rightarrow> pyval" where
  "set_fields (PDict [(op, PDict fs)]) (PDict ds) =
     (if op = ''$set'' then PDict (fold (\<lambda>(k, v). assign k v) fs ds) else PDict ds)"
| "set_fields u d = d"

definition mem :: "(unit, string, string \<times> string, mem_world) driver" where
  "mem = mem_driver field_match set_fields"

text \<open>The records and states of the examples.\<close>

definition rex :: pyval where
  "rex = PDict [(''name'', PStr ''Rex''), (''species'', PStr ''Dog'')]"

definition rex_cat :: pyval where
  "rex_cat = PDict [(''name'', PStr ''Rex''), (''species'', PStr ''Cat'')]"

definition by_name :: pyval where
  "by_name = PDict [(''name'', PStr ''Rex'')]"

definition set_canine :: pyval where
  "set_canine = PDict [(''$set'', PDict [(''species'', PStr ''Canine'')])]"

definition animals :: "(unit, string \<times> string) crud" where
  "animals = \<lparr>client = Some (), collection = Some (''aac'', ''animals''),
              db_name = ''aac'', collection_name = ''animals''\<rparr>"

definition unbound :: "(unit, string \<times> string) crud" where
  "unbound = \<lparr>client = None, collection = None, db_name = ''aac'', collection_name = ''animals''\<rparr>"

definition state_of :: "(unit, string \<times> string) crud \<Rightarrow> nat option \<Rightarrow> pyval list \<Rightarrow> (unit, string \<times> string, mem_world) pystate" where
  "state_of obj f ds = \<lparr>self = obj, stdout = [], world = \<lparr>fault = f, calls = 0, docs = ds\<rparr>\<rparr>"

text \<open>
  The same driver with write results that report the count \<open>k\<close> whatever
  was changed: \<^verbatim>\<open>None\<close> for a result that carries no count, or a number
  of the driver's choosing. The adapter returns what it is given.
\<close>

definition answer :: "'b \<Rightarrow> ('a, mem_world) call \<Rightarrow> ('b, mem_world) call" where
  "answer r f w = (case f w of (Inl e, w') \<Rightarrow> (Inl e, w') | (Inr x, w') \<Rightarrow> (Inr r, w'))"

definition reporting :: "int option \<Rightarrow> (unit, string, string \<times> string, mem_world) driver" where
  "reporting k =
     mem\<lparr>update_one := (\<lambda>co q u. answer \<lparr>modified_count = k\<rparr> (update_one mem co q u)),
         update_many := (\<lambda>co q u. answer \<lparr>modified_count = k\<rparr> (update_many mem co q u)),
         delete_one := (\<lambda>co q. answer \<lparr>deleted_count = k\<rparr> (delete_one mem co q)),
         delete_many := (\<lambda>co q. answer \<lparr>deleted_count = k\<rparr> (delete_many mem co q))\<rparr>"

definition uncounted :: "(unit, string, string \<times> string, mem_world) driver" where
  "uncounted = reporting None"

text \<open>
  Modelled from the spec: the specification calls an update specification
  without an update operator a caller error that may end in ``a driver-level
  rejection''. This driver checks its arguments before it sends anything, as
  PyMongo does, and rejects them with an exception that is not of its own
  error class: \<open>ValueError\<close> for an update specification that is empty or
  whose first key is not an operator (\<^verbatim>\<open>$...\<close>), and for a host with
  more than one colon. Everything else is the in-memory driver.
\<close>

fun validate_update :: "pyval \<Rightarrow> pyexn option" where
  "validate_update (PDict []) = Some (ValueError ''update cannot be empty'')"
| "validate_update (PDict ((k, v) # kvs)) =
     (if take 1 k = ''$'' then None else Some (ValueError ''update only works with $ operators''))"
| "validate_update u = None"

definition validate_host :: "(string \<rightharpoonup> pyval) \<Rightarrow> pyexn option" where
  "validate_host kw =
     (case kw ''host'' of
        Some (PStr h) \<Rightarrow>
          (if 1 < length (filter (\<lambda>c. c = CHR '':'') h)
           then Some (ValueError ''Reserved characters such as : must be escaped'')
           else None)
      | _ \<Rightarrow> None)"

definition guarded :: "pyexn option \<Rightarrow> ('a, 'w) call \<Rightarrow> ('a, 'w) call" where
  "guarded bad f w = (case bad of Some e \<Rightarrow> (Inl e, w) | None \<Rightarrow> f w)"

definition checked :: "(unit, string, string \<times> string, mem_world) driver" where
  "checked =
     mem\<lparr>MongoClient := (\<lambda>kw. guarded (validate_host kw) (MongoClient mem kw)),
         update_one := (\<lambda>co q u. guarded (validate_update u) (update_one mem co q u)),
         update_many := (\<lambda>co q u. guarded (validate_update u) (update_many mem co q u))\<rparr>"

definition bare_fields :: pyval where
  "bare_fields = PDict [(''species'', PStr ''Canine'')]"

text \<open>
  A driver that only keeps the connection options it is given: its world is
  the list of the option dictionaries that \<^verbatim>\<open>MongoClient\<close> has received,
  in order. Every other call succeeds and changes nothing.
\<close>

definition recorder :: "(unit, unit, unit, (string \<rightharpoonup> pyval) list) driver" where
  "recorder =
     \<lparr>MongoClient = (\<lambda>kw w. (Inr (), w @ [kw])),
      admin_command = (\<lambda>cl cmd w. (Inr (), w)),
      client_getitem = (\<lambda>cl n w. (Inr (), w)),
      database_getitem = (\<lambda>db n w. (Inr (), w)),
      insert_one = (\<lambda>co d w. (Inr \<lparr>acknowledged = True, inserted_id = PInt 0\<rparr>, w)),
      find = (\<lambda>co q w. (Inr (\<lambda>w'. (Inr [], w')), w)),
      update_one = (\<lambda>co q u w. (Inr \<lparr>modified_count = Some 0\<rparr>, w)),
      update_many = (\<lambda>co q u w. (Inr \<lparr>modified_count = Some 0\<rparr>, w)),
      delete_one = (\<lambda>co q w. (Inr \<lparr>deleted_count = Some 0\<rparr>, w)),
      delete_many = (\<lambda>co q w. (Inr \<lparr>deleted_count = Some 0\<rparr>, w))\<rparr>"

definition fresh :: "(string \<rightharpoonup> pyval) list \<Rightarrow> (unit, unit, (string \<rightharpoonup> pyval) list) pystate" where
  "fresh seen =
     \<lparr>self = \<lparr>client = None, collection = None, db_name = '''', collection_name = ''''\<rparr>,
      stdout = [], world = seen\<rparr>"

section \<open>What each method does, case by case\<close>

text \<open>
  The methods unfolded once: a failed type check, a missing collection, and
  the three outcomes of the driver call (a result, a \<open>PyMongoError\<close>, any
  other exception).
\<close>

lemmas py_defs = py_return_def py_raise_def py_bind_def try_except_PyMongoError_def
  driver_call_def print_def check_dict_def ensure_collection_def

lemma create_not_dict:
  "\<not> isinstance_dict d \<Longrightarrow> create drv d s = (Inl (ValueError ''create() expects a dict document.''), s)"
  by (simp add: create_def py_defs)

lemma read_not_dict:
  "\<not> isinstance_dict q \<Longrightarrow> read drv q s = (Inl (ValueError ''read() expects a dict query.''), s)"
  by (simp add: read_def py_defs)

lemma update_not_dict_query:
  "\<not> isinstance_dict q \<Longrightarrow> update drv q nv many s = (Inl (ValueError ''update() expects a dict query.''), s)"
  by (simp add: update_def py_defs)

lemma update_not_dict_spec:
  "isinstance_dict q \<Longrightarrow> \<not> isinstance_dict nv \<Longrightarrow> update drv q nv many s = (Inl (ValueError update_spec_msg), s)"
  by (simp add: update_def py_defs)

lemma delete_not_dict:
  "\<not> isinstance_dict q \<Longrightarrow> delete drv q many s = (Inl (ValueError ''delete() expects a dict query.''), s)"
  by (simp add: delete_def py_defs)

lemma create_unbound:
  "isinstance_dict d \<Longrightarrow> collection (self s) = None \<Longrightarrow>
   create drv d s = (Inl (RuntimeError ''[MongoDB] Collection is not initialized.'' None), s)"
  by (simp add: create_def py_defs)

lemma read_unbound:
  "isinstance_dict q \<Longrightarrow> collection (self s) = None \<Longrightarrow>
   read drv q s = (Inl (RuntimeError ''[MongoDB] Collection is not initialized.'' None), s)"
  by (simp add: read_def py_defs)

lemma update_unbound:
  "isinstance_dict q \<Longrightarrow> isinstance_dict nv \<Longrightarrow> collection (self s) = None \<Longrightarrow>
   update drv q nv many s = (Inl (RuntimeError ''[MongoDB] Collection is not initialized.'' None), s)"
  by (simp add: update_def py_defs)

lemma delete_unbound:
  "isinstance_dict q \<Longrightarrow> collection (self s) = None \<Longrightarrow>
   delete drv q many s = (Inl (RuntimeError ''[MongoDB] Collection is not initialized.'' None), s)"
  by (simp add: delete_def py_defs)

lemma create_bound:
  "isinstance_dict d \<Longrightarrow> collection (self s) = Some c \<Longrightarrow>
   create drv d s =
     (case insert_one drv c d (world s) of
        (Inr r, w') \<Rightarrow> (Inr (acknowledged r \<and> inserted_id r \<noteq> PNone), s\<lparr>world := w'\<rparr>)
      | (Inl (PyMongoError m), w') \<Rightarrow>
          (Inr False, s\<lparr>world := w', stdout := stdout s @ [''[MongoDB][CREATE] Error: '' @ m]\<rparr>)
      | (Inl e, w') \<Rightarrow> (Inl e, s\<lparr>world := w'\<rparr>))"
  by (simp add: create_def py_defs split: prod.splits sum.splits pyexn.splits)

lemma read_bound:
  "isinstance_dict q \<Longrightarrow> collection (self s) = Some c \<Longrightarrow>
   read drv q s =
     (case find drv c q (world s) of
        (Inr cursor, w1) \<Rightarrow>
          (case cursor w1 of
             (Inr ds, w2) \<Rightarrow> (Inr ds, s\<lparr>world := w2\<rparr>)
           | (Inl (PyMongoError m), w2) \<Rightarrow>
               (Inr [], s\<lparr>world := w2, stdout := stdout s @ [''[MongoDB][READ] Error: '' @ m]\<rparr>)
           | (Inl e, w2) \<Rightarrow> (Inl e, s\<lparr>world := w2\<rparr>))
      | (Inl (PyMongoError m), w1) \<Rightarrow>
          (Inr [], s\<lparr>world := w1, stdout := stdout s @ [''[MongoDB][READ] Error: '' @ m]\<rparr>)
      | (Inl e, w1) \<Rightarrow> (Inl e, s\<lparr>world := w1\<rparr>))"
  by (simp add: read_def py_defs split: prod.splits sum.splits pyexn.splits)

lemma update_bound:
  "isinstance_dict q \<Longrightarrow> isinstance_dict nv \<Longrightarrow> collection (self s) = Some c \<Longrightarrow>
   update drv q nv many s =
     (case (if many then update_many drv c q nv else update_one drv c q nv) (world s) of
        (Inr r, w') \<Rightarrow> (Inr (int_or_0 (modified_count r)), s\<lparr>world := w'\<rparr>)
      | (Inl (PyMongoError m), w') \<Rightarrow>
          (Inr 0, s\<lparr>world := w', stdout := stdout s @ [''[MongoDB][UPDATE] Error: '' @ m]\<rparr>)
      | (Inl e, w') \<Rightarrow> (Inl e, s\<lparr>world := w'\<rparr>))"
  by (simp add: update_def py_defs split: prod.splits sum.splits pyexn.splits)

lemma delete_bound:
  "isinstance_dict q \<Longrightarrow> collection (self s) = Some c \<Longrightarrow>
   delete drv q many s =
     (case (if many then delete_many drv c q else delete_one drv c q) (world s) of
        (Inr r, w') \<Rightarrow> (Inr (int_or_0 (deleted_count r)), s\<lparr>world := w'\<rparr>)
      | (Inl (PyMongoError m), w') \<Rightarrow>
          (Inr 0, s\<lparr>world := w', stdout := stdout s @ [''[MongoDB][DELETE] Error: '' @ m]\<rparr>)
      | (Inl e, w') \<Rightarrow> (Inl e, s\<lparr>world := w'\<rparr>))"
  by (simp add: delete_def py_defs split: prod.splits sum.splits pyexn.splits)

lemma int_or_0_eq: "int_or_0 c = (case c of None \<Rightarrow> 0 | Some n \<Rightarrow> n)"
  by (simp add: int_or_0_def split: option.splits)

lemmas mem_defs = mem_def mem_driver_def mem_insert_one_def mem_find_def mem_update_one_def
  mem_update_many_def mem_delete_one_def mem_delete_many_def request_def state_of_def
  animals_def unbound_def rex_def rex_cat_def by_name_def set_canine_def

section \<open>create\<close>

text \<open>
  C1. For a mapping document, \<^verbatim>\<open>create\<close> returns \<^verbatim>\<open>True\<close> exactly when the
  driver's \<^verbatim>\<open>insert_one\<close> returned a result that is acknowledged and
  carries an inserted identifier; and when \<^verbatim>\<open>insert_one\<close> raises a
  \<open>PyMongoError\<close>, \<^verbatim>\<open>create\<close> returns \<^verbatim>\<open>False\<close> (after printing the
  error) instead of raising.
\<close>

theorem create_true_iff:
  assumes "isinstance_dict D"
  shows "(fst (create drv D s) = Inr True \<longleftrightarrow>
            (\<exists>c r w'. collection (self s) = Some c
                \<and> insert_one drv c D (world s) = (Inr r, w')
                \<and> acknowledged r \<and> inserted_id r \<noteq> PNone))
         \<and> (\<forall>c m w'. collection (self s) = Some c
                \<and> insert_one drv c D (world s) = (Inl (PyMongoError m), w')
              \<longrightarrow> create drv D s =
                    (Inr False, s\<lparr>world := w', stdout := stdout s @ [''[MongoDB][CREATE] Error: '' @ m]\<rparr>))"
proof (cases "collection (self s)")
  case None
  then show ?thesis using assms by (simp add: create_unbound)
next
  case (Some c)
  obtain r w' where call: "insert_one drv c D (world s) = (r, w')"
    by (cases "insert_one drv c D (world s)")
  show ?thesis
    using assms Some call
    by (cases r) (auto simp: create_bound split: pyexn.splits)
qed

theorem create_true_iff_witness:
  "isinstance_dict rex
   \<and> fst (create mem rex (state_of animals None [])) = Inr True
   \<and> create mem rex (state_of animals (Some 0) []) =
       (Inr False, \<lparr>self = animals, stdout = [''[MongoDB][CREATE] Error: connection lost''],
                    world = \<lparr>fault = Some 0, calls = 1, docs = []\<rparr>\<rparr>)"
proof -
  have d: "isinstance_dict rex" by (simp add: rex_def)
  have ok: "insert_one mem (''aac'', ''animals'') rex (world (state_of animals None []))
            = (Inr \<lparr>acknowledged = True, inserted_id = PInt 0\<rparr>, \<lparr>fault = None, calls = 1, docs = [rex]\<rparr>)"
    by (simp add: mem_defs)
  have ko: "insert_one mem (''aac'', ''animals'') rex (world (state_of animals (Some 0) []))
            = (Inl (PyMongoError ''connection lost''), \<lparr>fault = Some 0, calls = 1, docs = []\<rparr>)"
    by (simp add: mem_defs)
  have c: "collection (self (state_of animals f ds)) = Some (''aac'', ''animals'')" for f ds
    by (simp add: state_of_def animals_def)
  from create_true_iff [OF d, of mem "state_of animals None []"] ok c
  have 1: "fst (create mem rex (state_of animals None [])) = Inr True" by simp
  from create_true_iff [OF d, of mem "state_of animals (Some 0) []"] ko c
  have 2: "create mem rex (state_of animals (Some 0) []) =
       (Inr False, \<lparr>self = animals, stdout = [''[MongoDB][CREATE] Error: connection lost''],
                    world = \<lparr>fault = Some 0, calls = 1, docs = []\<rparr>\<rparr>)"
    by (simp add: state_of_def)
  from d 1 2 show ?thesis by simp
qed

section \<open>Arguments that are not mappings\<close>

text \<open>
  C2. A non-mapping document, query or update specification makes
  \<^verbatim>\<open>create\<close>, \<^verbatim>\<open>read\<close>, \<^verbatim>\<open>update\<close> and \<^verbatim>\<open>delete\<close> raise
  \<open>ValueError\<close> to the caller. The state is the one before the call: the
  driver was not called and nothing was printed, so the error was not turned
  into \<^verbatim>\<open>False\<close>, \<^verbatim>\<open>[]\<close> or \<open>0\<close> by the handler of the enclosing
  \<^verbatim>\<open>try\<close>.
\<close>

theorem non_mapping_raises_ValueError:
  "(\<not> isinstance_dict d \<longrightarrow>
      create drv d s = (Inl (ValueError ''create() expects a dict document.''), s))
   \<and> (\<not> isinstance_dict q \<longrightarrow>
      read drv q s = (Inl (ValueError ''read() expects a dict query.''), s))
   \<and> (\<not> isinstance_dict q \<longrightarrow>
      update drv q nv many s = (Inl (ValueError ''update() expects a dict query.''), s))
   \<and> (isinstance_dict q \<and> \<not> isinstance_dict nv \<longrightarrow>
      update drv q nv many s = (Inl (ValueError update_spec_msg), s))
   \<and> (\<not> isinstance_dict q \<longrightarrow>
      delete drv q many s = (Inl (ValueError ''delete() expects a dict query.''), s))"
  by (simp add: create_not_dict read_not_dict update_not_dict_query update_not_dict_spec
      delete_not_dict)

theorem non_mapping_raises_ValueError_witness:
  "\<not> isinstance_dict (PStr ''Rex'') \<and> isinstance_dict by_name
   \<and> create mem (PStr ''Rex'') (state_of animals None [rex]) =
       (Inl (ValueError ''create() expects a dict document.''), state_of animals None [rex])
   \<and> read mem (PStr ''Rex'') (state_of animals None [rex]) =
       (Inl (ValueError ''read() expects a dict query.''), state_of animals None [rex])
   \<and> update mem (PStr ''Rex'') set_canine True (state_of animals None [rex]) =
       (Inl (ValueError ''update() expects a dict query.''), state_of animals None [rex])
   \<and> update mem by_name (PStr ''Canine'') False (state_of animals None [rex]) =
       (Inl (ValueError update_spec_msg), state_of animals None [rex])
   \<and> delete mem (PStr ''Rex'') True (state_of animals None [rex]) =
       (Inl (ValueError ''delete() expects a dict query.''), state_of animals None [rex])
   \<and> calls (world (snd (delete mem (PStr ''Rex'') True (state_of animals None [rex])))) = 0
   \<and> docs (world (snd (delete mem (PStr ''Rex'') True (state_of animals None [rex])))) = [rex]"
  using non_mapping_raises_ValueError
          [of "PStr ''Rex''" mem "state_of animals None [rex]" "PStr ''Rex''" set_canine True]
        non_mapping_raises_ValueError
          [of "PStr ''Rex''" mem "state_of animals None [rex]" by_name "PStr ''Canine''" False]
  by (simp add: by_name_def state_of_def)

section \<open>An adapter without a collection\<close>

text \<open>
  C9, as the code has it. When \<^verbatim>\<open>self._collection\<close> is \<^verbatim>\<open>None\<close>, every
  public operation called with mapping arguments raises the
  \<open>RuntimeError\<close> of \<^verbatim>\<open>_ensure_collection\<close>; with any arguments at all
  it raises (the type check comes first and gives \<open>ValueError\<close>), and it
  never returns its sentinel. The state is left as it was.
\<close>

theorem unbound_collection_raises:
  assumes "collection (self s) = None"
  shows "(isinstance_dict d \<longrightarrow>
            create drv d s = (Inl (RuntimeError ''[MongoDB] Collection is not initialized.'' None), s))
       \<and> (isinstance_dict q \<longrightarrow>
            read drv q s = (Inl (RuntimeError ''[MongoDB] Collection is not initialized.'' None), s))
       \<and> (isinstance_dict q \<and> isinstance_dict nv \<longrightarrow>
            update drv q nv many s = (Inl (RuntimeError ''[MongoDB] Collection is not initialized.'' None), s))
       \<and> (isinstance_dict q \<longrightarrow>
            delete drv q many s = (Inl (RuntimeError ''[MongoDB] Collection is not initialized.'' None), s))
       \<and> (\<exists>e. create drv d s = (Inl e, s))
       \<and> (\<exists>e. read drv q s = (Inl e, s))
       \<and> (\<exists>e. update drv q nv many s = (Inl e, s))
       \<and> (\<exists>e. delete drv q many s = (Inl e, s))"
proof -
  have c: "\<exists>e. create drv d s = (Inl e, s)"
    using assms by (cases "isinstance_dict d") (simp_all add: create_unbound create_not_dict)
  have r: "\<exists>e. read drv q s = (Inl e, s)"
    using assms by (cases "isinstance_dict q") (simp_all add: read_unbound read_not_dict)
  have u: "\<exists>e. update drv q nv many s = (Inl e, s)"
    using assms
    by (cases "isinstance_dict q"; cases "isinstance_dict nv")
       (simp_all add: update_unbound update_not_dict_query update_not_dict_spec)
  have dl: "\<exists>e. delete drv q many s = (Inl e, s)"
    using assms by (cases "isinstance_dict q") (simp_all add: delete_unbound delete_not_dict)
  show ?thesis
    using assms c r u dl
    by (simp add: create_unbound read_unbound update_unbound delete_unbound)
qed

theorem unbound_collection_raises_witness:
  "collection (self (state_of unbound None [rex])) = None
   \<and> isinstance_dict rex \<and> isinstance_dict by_name \<and> isinstance_dict set_canine
   \<and> fst (create mem rex (state_of unbound None [rex])) =
        Inl (RuntimeError ''[MongoDB] Collection is not initialized.'' None)
   \<and> fst (read mem by_name (state_of unbound None [rex])) =
        Inl (RuntimeError ''[MongoDB] Collection is not initialized.'' None)
   \<and> fst (update mem by_name set_canine False (state_of unbound None [rex])) =
        Inl (RuntimeError ''[MongoDB] Collection is not initialized.'' None)
   \<and> fst (delete mem by_name False (state_of unbound None [rex])) =
        Inl (RuntimeError ''[MongoDB] Collection is not initialized.'' None)"
proof -
  have u: "collection (self (state_of unbound None [rex])) = None"
    by (simp add: state_of_def unbound_def)
  have d: "isinstance_dict rex" "isinstance_dict by_name" "isinstance_dict set_canine"
    by (simp_all add: rex_def by_name_def set_canine_def)
  from unbound_collection_raises [OF u, where d = rex and drv = mem and q = by_name and nv = set_canine and many = False] u d
  show ?thesis by simp
qed

text \<open>
  The specification's sentence fails for a call whose argument is not a mapping: the
  exception is then the \<open>ValueError\<close> of the type check.
\<close>

theorem unbound_collection_counterexample:
  "collection (self (state_of unbound None [])) = None
   \<and> fst (create mem (PStr ''Rex'') (state_of unbound None [])) =
        Inl (ValueError ''create() expects a dict document.'')
   \<and> fst (create mem (PStr ''Rex'') (state_of unbound None [])) \<noteq>
        Inl (RuntimeError ''[MongoDB] Collection is not initialized.'' None)"
  by (simp add: create_not_dict state_of_def unbound_def)

section \<open>read\<close>

text \<open>
  C3. For a mapping query on a bound collection, \<^verbatim>\<open>read\<close> returns the
  whole list that the driver's cursor yields for the query, in the cursor's
  order; when the cursor yields nothing the result is the empty list. When
  \<^verbatim>\<open>find\<close> or the materialisation of the cursor raises a
  \<open>PyMongoError\<close>, \<^verbatim>\<open>read\<close> prints the error and returns the empty list.
\<close>

theorem read_returns_matches:
  assumes "isinstance_dict q" and "collection (self s) = Some c"
  shows "(\<forall>cursor w1 ds w2.
            find drv c q (world s) = (Inr cursor, w1) \<and> cursor w1 = (Inr ds, w2)
            \<longrightarrow> read drv q s = (Inr ds, s\<lparr>world := w2\<rparr>))
       \<and> (\<forall>cursor w1 w2.
            find drv c q (world s) = (Inr cursor, w1) \<and> cursor w1 = (Inr [], w2)
            \<longrightarrow> fst (read drv q s) = Inr [])
       \<and> (\<forall>m w1.
            find drv c q (world s) = (Inl (PyMongoError m), w1)
            \<longrightarrow> read drv q s =
                  (Inr [], s\<lparr>world := w1, stdout := stdout s @ [''[MongoDB][READ] Error: '' @ m]\<rparr>))
       \<and> (\<forall>cursor w1 m w2.
            find drv c q (world s) = (Inr cursor, w1) \<and> cursor w1 = (Inl (PyMongoError m), w2)
            \<longrightarrow> read drv q s =
                  (Inr [], s\<lparr>world := w2, stdout := stdout s @ [''[MongoDB][READ] Error: '' @ m]\<rparr>))"
  using assms by (simp add: read_bound)

theorem read_returns_matches_witness:
  "isinstance_dict by_name
   \<and> collection (self (state_of animals None [rex, PDict [(''name'', PStr ''Tom'')], rex_cat]))
       = Some (''aac'', ''animals'')
   \<and> fst (read mem by_name (state_of animals None [rex, PDict [(''name'', PStr ''Tom'')], rex_cat]))
       = Inr [rex, rex_cat]
   \<and> fst (read mem by_name (state_of animals None [PDict [(''name'', PStr ''Tom'')]])) = Inr []
   \<and> read mem by_name (state_of animals (Some 0) [rex]) =
       (Inr [], \<lparr>self = animals, stdout = [''[MongoDB][READ] Error: connection lost''],
                 world = \<lparr>fault = Some 0, calls = 1, docs = [rex]\<rparr>\<rparr>)"
proof -
  let ?c = "(''aac'', ''animals'')"
  let ?cur = "request (\<lambda>w'. (Inr (filter (field_match by_name) (docs w')), w'))"
  have d: "isinstance_dict by_name" by (simp add: by_name_def)
  have c: "collection (self (state_of animals f ds)) = Some ?c" for f ds
    by (simp add: state_of_def animals_def)
  have f: "find mem ?c by_name w = (Inr ?cur, w)" for w
    by (simp add: mem_def mem_driver_def mem_find_def)
  have 1: "?cur (world (state_of animals None [rex, PDict [(''name'', PStr ''Tom'')], rex_cat]))
           = (Inr [rex, rex_cat],
              \<lparr>fault = None, calls = 1, docs = [rex, PDict [(''name'', PStr ''Tom'')], rex_cat]\<rparr>)"
    by (simp add: mem_defs)
  have 2: "?cur (world (state_of animals None [PDict [(''name'', PStr ''Tom'')]]))
           = (Inr [], \<lparr>fault = None, calls = 1, docs = [PDict [(''name'', PStr ''Tom'')]]\<rparr>)"
    by (simp add: mem_defs)
  have 3: "?cur (world (state_of animals (Some 0) [rex]))
           = (Inl (PyMongoError ''connection lost''), \<lparr>fault = Some 0, calls = 1, docs = [rex]\<rparr>)"
    by (simp add: mem_defs)
  note t = read_returns_matches [OF d c, where drv = mem]
  have r1: "fst (read mem by_name (state_of animals None [rex, PDict [(''name'', PStr ''Tom'')], rex_cat]))
       = Inr [rex, rex_cat]"
    using t [of None "[rex, PDict [(''name'', PStr ''Tom'')], rex_cat]"] f 1 by simp
  have r2: "fst (read mem by_name (state_of animals None [PDict [(''name'', PStr ''Tom'')]])) = Inr []"
    using t [of None "[PDict [(''name'', PStr ''Tom'')]]"] f 2 by simp
  have r3: "read mem by_name (state_of animals (Some 0) [rex]) =
       (Inr [], \<lparr>self = animals, stdout = [''[MongoDB][READ] Error: connection lost''],
                 world = \<lparr>fault = Some 0, calls = 1, docs = [rex]\<rparr>\<rparr>)"
    using t [of "Some 0" "[rex]"] f 3 by (simp add: state_of_def)
  from d c r1 r2 r3 show ?thesis by simp
qed

section \<open>update\<close>

text \<open>
  C4, as the code has it. For mapping arguments on a bound collection,
  \<^verbatim>\<open>update\<close> with \<^verbatim>\<open>many=True\<close> makes the driver's \<^verbatim>\<open>update_many\<close>
  call (every match) and with \<^verbatim>\<open>many=False\<close> its \<^verbatim>\<open>update_one\<close> call
  (at most one match), once, and returns the modified count the driver
  reports. It returns \<open>0\<close> when the driver reports that nothing was
  modified, and also when the call raises a \<open>PyMongoError\<close>: the caller sees
  the same value in both cases. A failure of any other class that the driver
  raises is not caught: it reaches the caller as it is, and nothing is
  printed.
\<close>

theorem update_returns_modified_count:
  assumes "isinstance_dict q" and "isinstance_dict nv" and "collection (self s) = Some c"
  shows "(\<forall>r n w'. update_many drv c q nv (world s) = (Inr r, w') \<and> modified_count r = Some n
            \<longrightarrow> update drv q nv True s = (Inr n, s\<lparr>world := w'\<rparr>))
       \<and> (\<forall>r n w'. update_one drv c q nv (world s) = (Inr r, w') \<and> modified_count r = Some n
            \<longrightarrow> update drv q nv False s = (Inr n, s\<lparr>world := w'\<rparr>))
       \<and> (\<forall>r w'. (if many then update_many drv c q nv else update_one drv c q nv) (world s) = (Inr r, w')
                  \<and> modified_count r = Some 0
            \<longrightarrow> fst (update drv q nv many s) = Inr 0)
       \<and> (\<forall>m w'. (if many then update_many drv c q nv else update_one drv c q nv) (world s)
                    = (Inl (PyMongoError m), w')
            \<longrightarrow> fst (update drv q nv many s) = Inr 0
              \<and> snd (update drv q nv many s) =
                  s\<lparr>world := w', stdout := stdout s @ [''[MongoDB][UPDATE] Error: '' @ m]\<rparr>)
       \<and> (\<forall>e w'. (if many then update_many drv c q nv else update_one drv c q nv) (world s)
                    = (Inl e, w')
                  \<and> (\<forall>m. e \<noteq> PyMongoError m)
            \<longrightarrow> update drv q nv many s = (Inl e, s\<lparr>world := w'\<rparr>))"
proof -
  have other: "update drv q nv many s = (Inl e, s\<lparr>world := w'\<rparr>)"
    if "(if many then update_many drv c q nv else update_one drv c q nv) (world s) = (Inl e, w')"
      and "\<forall>m. e \<noteq> PyMongoError m" for e w'
    using assms that by (cases e) (simp_all add: update_bound)
  show ?thesis
    using assms other by (simp add: update_bound int_or_0_eq)
qed

theorem update_returns_modified_count_witness:
  "isinstance_dict by_name \<and> isinstance_dict set_canine \<and> isinstance_dict bare_fields
   \<and> collection (self (state_of animals None [rex, PDict [(''name'', PStr ''Tom'')], rex_cat]))
       = Some (''aac'', ''animals'')
   \<and> update mem by_name set_canine True (state_of animals None [rex, PDict [(''name'', PStr ''Tom'')], rex_cat])
       = (Inr 2, \<lparr>self = animals, stdout = [],
                  world = \<lparr>fault = None, calls = 1,
                           docs = [PDict [(''name'', PStr ''Rex''), (''species'', PStr ''Canine'')],
                                   PDict [(''name'', PStr ''Tom'')],
                                   PDict [(''name'', PStr ''Rex''), (''species'', PStr ''Canine'')]]\<rparr>\<rparr>)
   \<and> update mem by_name set_canine False (state_of animals None [rex, PDict [(''name'', PStr ''Tom'')], rex_cat])
       = (Inr 1, \<lparr>self = animals, stdout = [],
                  world = \<lparr>fault = None, calls = 1,
                           docs = [PDict [(''name'', PStr ''Rex''), (''species'', PStr ''Canine'')],
                                   PDict [(''name'', PStr ''Tom'')], rex_cat]\<rparr>\<rparr>)
   \<and> fst (update mem by_name set_canine True (state_of animals None [PDict [(''name'', PStr ''Tom'')]])) = Inr 0
   \<and> fst (update mem by_name set_canine True (state_of animals (Some 0) [rex])) = Inr 0
   \<and> snd (update mem by_name set_canine True (state_of animals (Some 0) [rex])) =
        \<lparr>self = animals, stdout = [''[MongoDB][UPDATE] Error: connection lost''],
         world = \<lparr>fault = Some 0, calls = 1, docs = [rex]\<rparr>\<rparr>
   \<and> update checked by_name bare_fields True (state_of animals None [rex]) =
        (Inl (ValueError ''update only works with $ operators''),
         \<lparr>self = animals, stdout = [], world = \<lparr>fault = None, calls = 0, docs = [rex]\<rparr>\<rparr>)"
proof -
  let ?c = "(''aac'', ''animals'')"
  let ?tom = "PDict [(''name'', PStr ''Tom'')]"
  let ?canine = "PDict [(''name'', PStr ''Rex''), (''species'', PStr ''Canine'')]"
  have d: "isinstance_dict by_name" "isinstance_dict set_canine"
    by (simp_all add: by_name_def set_canine_def)
  have b: "isinstance_dict bare_fields" by (simp add: bare_fields_def)
  have c: "collection (self (state_of animals f ds)) = Some ?c" for f ds
    by (simp add: state_of_def animals_def)
  have m: "update_many mem ?c by_name set_canine (world (state_of animals None [rex, ?tom, rex_cat]))
           = (Inr \<lparr>modified_count = Some 2\<rparr>,
              \<lparr>fault = None, calls = 1, docs = [?canine, ?tom, ?canine]\<rparr>)"
    by (simp add: mem_defs)
  have o: "update_one mem ?c by_name set_canine (world (state_of animals None [rex, ?tom, rex_cat]))
           = (Inr \<lparr>modified_count = Some 1\<rparr>,
              \<lparr>fault = None, calls = 1, docs = [?canine, ?tom, rex_cat]\<rparr>)"
    by (simp add: mem_defs)
  have z: "update_many mem ?c by_name set_canine (world (state_of animals None [?tom]))
           = (Inr \<lparr>modified_count = Some 0\<rparr>, \<lparr>fault = None, calls = 1, docs = [?tom]\<rparr>)"
    by (simp add: mem_defs)
  have e: "update_many mem ?c by_name set_canine (world (state_of animals (Some 0) [rex]))
           = (Inl (PyMongoError ''connection lost''), \<lparr>fault = Some 0, calls = 1, docs = [rex]\<rparr>)"
    by (simp add: mem_defs)
  have v: "update_many checked ?c by_name bare_fields (world (state_of animals None [rex]))
           = (Inl (ValueError ''update only works with $ operators''),
              \<lparr>fault = None, calls = 0, docs = [rex]\<rparr>)"
    by (simp add: checked_def guarded_def bare_fields_def state_of_def)
  note t = update_returns_modified_count [OF d c, where drv = mem]
  have 1: "update mem by_name set_canine True (state_of animals None [rex, ?tom, rex_cat])
       = (Inr 2, \<lparr>self = animals, stdout = [],
                  world = \<lparr>fault = None, calls = 1, docs = [?canine, ?tom, ?canine]\<rparr>\<rparr>)"
    using t [of None "[rex, ?tom, rex_cat]" True] m by (simp add: state_of_def)
  have 2: "update mem by_name set_canine False (state_of animals None [rex, ?tom, rex_cat])
       = (Inr 1, \<lparr>self = animals, stdout = [],
                  world = \<lparr>fault = None, calls = 1, docs = [?canine, ?tom, rex_cat]\<rparr>\<rparr>)"
    using t [of None "[rex, ?tom, rex_cat]" False] o by (simp add: state_of_def)
  have 3: "fst (update mem by_name set_canine True (state_of animals None [?tom])) = Inr 0"
    using t [of None "[?tom]" True] z by simp
  have 4: "fst (update mem by_name set_canine True (state_of animals (Some 0) [rex])) = Inr 0
     \<and> snd (update mem by_name set_canine True (state_of animals (Some 0) [rex])) =
        \<lparr>self = animals, stdout = [''[MongoDB][UPDATE] Error: connection lost''],
         world = \<lparr>fault = Some 0, calls = 1, docs = [rex]\<rparr>\<rparr>"
    using t [of "Some 0" "[rex]" True] e by (simp add: state_of_def)
  have 5: "update checked by_name bare_fields True (state_of animals None [rex]) =
        (Inl (ValueError ''update only works with $ operators''),
         \<lparr>self = animals, stdout = [], world = \<lparr>fault = None, calls = 0, docs = [rex]\<rparr>\<rparr>)"
    using update_returns_modified_count
            [OF d(1) b c [of None "[rex]"], where drv = checked and many = True] v
    by (simp add: state_of_def)
  from d b c 1 2 3 4 5 show ?thesis by simp
qed

text \<open>
  The specification's sentence fails for a driver failure that is not a
  \<open>PyMongoError\<close>: an update specification without an operator is a pair
  of mappings, the driver rejects it with \<open>ValueError\<close>, and \<^verbatim>\<open>update\<close>
  raises instead of returning \<open>0\<close>. The same happens for the empty
  specification.
\<close>

theorem update_driver_failure_counterexample:
  "isinstance_dict by_name \<and> isinstance_dict bare_fields \<and> isinstance_dict (PDict [])
   \<and> collection (self (state_of animals None [rex])) = Some (''aac'', ''animals'')
   \<and> fst (update checked by_name bare_fields False (state_of animals None [rex]))
        = Inl (ValueError ''update only works with $ operators'')
   \<and> fst (update checked by_name bare_fields False (state_of animals None [rex])) \<noteq> Inr 0
   \<and> fst (update checked (PDict []) (PDict []) True (state_of animals None [rex]))
        = Inl (ValueError ''update cannot be empty'')"
proof -
  have d: "isinstance_dict by_name" "isinstance_dict bare_fields" "isinstance_dict (PDict [])"
    by (simp_all add: by_name_def bare_fields_def)
  have c: "collection (self (state_of animals None [rex])) = Some (''aac'', ''animals'')"
    by (simp add: state_of_def animals_def)
  have v1: "update_one checked (''aac'', ''animals'') by_name bare_fields (world (state_of animals None [rex]))
            = (Inl (ValueError ''update only works with $ operators''), world (state_of animals None [rex]))"
    by (simp add: checked_def guarded_def bare_fields_def)
  have v2: "update_many checked (''aac'', ''animals'') (PDict []) (PDict []) (world (state_of animals None [rex]))
            = (Inl (ValueError ''update cannot be empty''), world (state_of animals None [rex]))"
    by (simp add: checked_def guarded_def)
  have 1: "fst (update checked by_name bare_fields False (state_of animals None [rex]))
        = Inl (ValueError ''update only works with $ operators'')"
    using v1 by (simp add: update_bound [OF d(1) d(2) c])
  have 2: "fst (update checked (PDict []) (PDict []) True (state_of animals None [rex]))
        = Inl (ValueError ''update cannot be empty'')"
    using v2 by (simp add: update_bound [OF d(3) d(3) c])
  from d c 1 2 show ?thesis by simp
qed

section \<open>The counts are never null\<close>

text \<open>
  C10, as the code has it. For mapping arguments on a bound collection,
  \<^verbatim>\<open>update\<close> and \<^verbatim>\<open>delete\<close> return an integer, never \<^verbatim>\<open>None\<close>,
  whenever the driver call returns a result or raises a \<open>PyMongoError\<close>:
  the count of the driver's result as it is (it is not clamped, so the
  value is nonnegative exactly when the driver's count is), \<open>0\<close> when the
  result carries no count, and \<open>0\<close> after a \<open>PyMongoError\<close>. A failure of
  any other class that the driver raises reaches the caller as it is.
\<close>

theorem counts_are_integers:
  assumes "isinstance_dict q" and "isinstance_dict nv" and "collection (self s) = Some c"
  shows "(\<forall>r w'. (if many then update_many drv c q nv else update_one drv c q nv) (world s) = (Inr r, w')
            \<longrightarrow> fst (update drv q nv many s) = Inr (case modified_count r of None \<Rightarrow> 0 | Some n \<Rightarrow> n)
              \<and> (\<exists>n. fst (update drv q nv many s) = Inr n
                    \<and> (0 \<le> n \<longleftrightarrow> (\<forall>k. modified_count r = Some k \<longrightarrow> 0 \<le> k))))
       \<and> (\<forall>m w'. (if many then update_many drv c q nv else update_one drv c q nv) (world s)
                    = (Inl (PyMongoError m), w')
            \<longrightarrow> fst (update drv q nv many s) = Inr 0)
       \<and> (\<forall>e w'. (if many then update_many drv c q nv else update_one drv c q nv) (world s) = (Inl e, w')
                  \<and> (\<forall>m. e \<noteq> PyMongoError m)
            \<longrightarrow> fst (update drv q nv many s) = Inl e)
       \<and> (\<forall>r w'. (if many then delete_many drv c q else delete_one drv c q) (world s) = (Inr r, w')
            \<longrightarrow> fst (delete drv q many s) = Inr (case deleted_count r of None \<Rightarrow> 0 | Some n \<Rightarrow> n)
              \<and> (\<exists>n. fst (delete drv q many s) = Inr n
                    \<and> (0 \<le> n \<longleftrightarrow> (\<forall>k. deleted_count r = Some k \<longrightarrow> 0 \<le> k))))
       \<and> (\<forall>m w'. (if many then delete_many drv c q else delete_one drv c q) (world s)
                    = (Inl (PyMongoError m), w')
            \<longrightarrow> fst (delete drv q many s) = Inr 0)
       \<and> (\<forall>e w'. (if many then delete_many drv c q else delete_one drv c q) (world s) = (Inl e, w')
                  \<and> (\<forall>m. e \<noteq> PyMongoError m)
            \<longrightarrow> fst (delete drv q many s) = Inl e)"
proof -
  have u: "update drv q nv many s =
     (case (if many then update_many drv c q nv else update_one drv c q nv) (world s) of
        (Inr r, w') \<Rightarrow> (Inr (int_or_0 (modified_count r)), s\<lparr>world := w'\<rparr>)
      | (Inl (PyMongoError m), w') \<Rightarrow>
          (Inr 0, s\<lparr>world := w', stdout := stdout s @ [''[MongoDB][UPDATE] Error: '' @ m]\<rparr>)
      | (Inl e, w') \<Rightarrow> (Inl e, s\<lparr>world := w'\<rparr>))"
    using assms by (rule update_bound)
  have dl: "delete drv q many s =
     (case (if many then delete_many drv c q else delete_one drv c q) (world s) of
        (Inr r, w') \<Rightarrow> (Inr (int_or_0 (deleted_count r)), s\<lparr>world := w'\<rparr>)
      | (Inl (PyMongoError m), w') \<Rightarrow>
          (Inr 0, s\<lparr>world := w', stdout := stdout s @ [''[MongoDB][DELETE] Error: '' @ m]\<rparr>)
      | (Inl e, w') \<Rightarrow> (Inl e, s\<lparr>world := w'\<rparr>))"
    using assms(1,3) by (rule delete_bound)
  have nn: "(0 \<le> (case k of None \<Rightarrow> 0 | Some n \<Rightarrow> n)) = (\<forall>j. k = Some j \<longrightarrow> (0::int) \<le> j)" for k
    by (cases k) simp_all
  have uo: "fst (update drv q nv many s) = Inl e"
    if "(if many then update_many drv c q nv else update_one drv c q nv) (world s) = (Inl e, w')"
      and "\<forall>m. e \<noteq> PyMongoError m" for e w'
    unfolding u using that by (cases e) simp_all
  have dlo: "fst (delete drv q many s) = Inl e"
    if "(if many then delete_many drv c q else delete_one drv c q) (world s) = (Inl e, w')"
      and "\<forall>m. e \<noteq> PyMongoError m" for e w'
    unfolding dl using that by (cases e) simp_all
  have ur: "fst (update drv q nv many s) = Inr (case modified_count r of None \<Rightarrow> 0 | Some n \<Rightarrow> n)"
    if "(if many then update_many drv c q nv else update_one drv c q nv) (world s) = (Inr r, w')" for r w'
    unfolding u using that by (simp add: int_or_0_eq)
  have dr: "fst (delete drv q many s) = Inr (case deleted_count r of None \<Rightarrow> 0 | Some n \<Rightarrow> n)"
    if "(if many then delete_many drv c q else delete_one drv c q) (world s) = (Inr r, w')" for r w'
    unfolding dl using that by (simp add: int_or_0_eq)
  have ue: "fst (update drv q nv many s) = Inr 0"
    if "(if many then update_many drv c q nv else update_one drv c q nv) (world s)
          = (Inl (PyMongoError m), w')" for m w'
    unfolding u using that by simp
  have de: "fst (delete drv q many s) = Inr 0"
    if "(if many then delete_many drv c q else delete_one drv c q) (world s)
          = (Inl (PyMongoError m), w')" for m w'
    unfolding dl using that by simp
  show ?thesis
    using uo dlo ue de by (auto simp: ur dr nn)
qed

theorem counts_are_integers_witness:
  "isinstance_dict by_name \<and> isinstance_dict set_canine \<and> isinstance_dict bare_fields
   \<and> collection (self (state_of animals None [rex, rex_cat])) = Some (''aac'', ''animals'')
   \<and> fst (update uncounted by_name set_canine True (state_of animals None [rex, rex_cat])) = Inr 0
   \<and> fst (delete uncounted by_name False (state_of animals None [rex, rex_cat])) = Inr 0
   \<and> fst (update mem by_name set_canine True (state_of animals None [rex, rex_cat])) = Inr 2
   \<and> fst (delete mem by_name True (state_of animals None [rex, rex_cat])) = Inr 2
   \<and> fst (update mem by_name set_canine False (state_of animals (Some 0) [rex, rex_cat])) = Inr 0
   \<and> fst (delete mem by_name True (state_of animals (Some 0) [rex, rex_cat])) = Inr 0
   \<and> fst (update checked by_name bare_fields False (state_of animals None [rex, rex_cat]))
        = Inl (ValueError ''update only works with $ operators'')"
proof -
  let ?c = "(''aac'', ''animals'')"
  have d: "isinstance_dict by_name" "isinstance_dict set_canine"
    by (simp_all add: by_name_def set_canine_def)
  have b: "isinstance_dict bare_fields" by (simp add: bare_fields_def)
  have c: "collection (self (state_of animals f ds)) = Some ?c" for f ds
    by (simp add: state_of_def animals_def)
  have u0: "\<exists>w'. update_many uncounted ?c by_name set_canine (world (state_of animals None [rex, rex_cat]))
           = (Inr \<lparr>modified_count = None\<rparr>, w')"
    by (simp add: uncounted_def reporting_def answer_def mem_defs)
  have d0: "\<exists>w'. delete_one uncounted ?c by_name (world (state_of animals None [rex, rex_cat]))
           = (Inr \<lparr>deleted_count = None\<rparr>, w')"
    by (simp add: uncounted_def reporting_def answer_def mem_defs)
  have u1: "\<exists>w'. update_many mem ?c by_name set_canine (world (state_of animals None [rex, rex_cat]))
           = (Inr \<lparr>modified_count = Some 2\<rparr>, w')"
    by (simp add: mem_defs)
  have d1: "\<exists>w'. delete_many mem ?c by_name (world (state_of animals None [rex, rex_cat]))
           = (Inr \<lparr>deleted_count = Some 2\<rparr>, w')"
    by (simp add: mem_defs)
  have u2: "\<exists>w'. update_one mem ?c by_name set_canine (world (state_of animals (Some 0) [rex, rex_cat]))
           = (Inl (PyMongoError ''connection lost''), w')"
    by (simp add: mem_defs)
  have d2: "\<exists>w'. delete_many mem ?c by_name (world (state_of animals (Some 0) [rex, rex_cat]))
           = (Inl (PyMongoError ''connection lost''), w')"
    by (simp add: mem_defs)
  have u3: "\<exists>w'. update_one checked ?c by_name bare_fields (world (state_of animals None [rex, rex_cat]))
           = (Inl (ValueError ''update only works with $ operators''), w')"
    by (simp add: checked_def guarded_def bare_fields_def)
  note t = counts_are_integers [OF d c]
  have 1: "fst (update uncounted by_name set_canine True (state_of animals None [rex, rex_cat])) = Inr 0"
    using t [of True uncounted None "[rex, rex_cat]"] u0 by auto
  have 2: "fst (delete uncounted by_name False (state_of animals None [rex, rex_cat])) = Inr 0"
    using t [of False uncounted None "[rex, rex_cat]"] d0 by auto
  have 3: "fst (update mem by_name set_canine True (state_of animals None [rex, rex_cat])) = Inr 2"
    using t [of True mem None "[rex, rex_cat]"] u1 by auto
  have 4: "fst (delete mem by_name True (state_of animals None [rex, rex_cat])) = Inr 2"
    using t [of True mem None "[rex, rex_cat]"] d1 by auto
  have 5: "fst (update mem by_name set_canine False (state_of animals (Some 0) [rex, rex_cat])) = Inr 0"
    using t [of False mem "Some 0" "[rex, rex_cat]"] u2 by auto
  have 6: "fst (delete mem by_name True (state_of animals (Some 0) [rex, rex_cat])) = Inr 0"
    using t [of True mem "Some 0" "[rex, rex_cat]"] d2 by auto
  have 7: "fst (update checked by_name bare_fields False (state_of animals None [rex, rex_cat]))
        = Inl (ValueError ''update only works with $ operators'')"
    using counts_are_integers [OF d(1) b c [of None "[rex, rex_cat]"], where many = False and drv = checked] u3
    by auto
  from d b c 1 2 3 4 5 6 7 show ?thesis by simp
qed

text \<open>
  The specification's sentence fails in two ways. A driver failure that is
  not a \<open>PyMongoError\<close> makes \<^verbatim>\<open>update\<close> raise on a pair of mappings
  (the empty update specification is rejected with \<open>ValueError\<close>), so it
  does not always return. And the count is passed on as the driver gives
  it: a result that reports \<open>-3\<close> makes \<^verbatim>\<open>update\<close> and \<^verbatim>\<open>delete\<close>
  return \<open>-3\<close>.
\<close>

theorem counts_counterexample:
  "isinstance_dict (PDict []) \<and> isinstance_dict by_name \<and> isinstance_dict set_canine
   \<and> collection (self (state_of animals None [rex])) = Some (''aac'', ''animals'')
   \<and> fst (update checked (PDict []) (PDict []) True (state_of animals None [rex]))
        = Inl (ValueError ''update cannot be empty'')
   \<and> fst (update (reporting (Some (- 3))) by_name set_canine True (state_of animals None [rex])) = Inr (- 3)
   \<and> fst (delete (reporting (Some (- 3))) by_name False (state_of animals None [rex])) = Inr (- 3)"
proof -
  let ?c = "(''aac'', ''animals'')"
  let ?s = "state_of animals None [rex]"
  have d: "isinstance_dict (PDict [])" "isinstance_dict by_name" "isinstance_dict set_canine"
    by (simp_all add: by_name_def set_canine_def)
  have c: "collection (self ?s) = Some ?c"
    by (simp add: state_of_def animals_def)
  have v: "update_many checked ?c (PDict []) (PDict []) (world ?s)
            = (Inl (ValueError ''update cannot be empty''), world ?s)"
    by (simp add: checked_def guarded_def)
  have u: "\<exists>w'. update_many (reporting (Some (- 3))) ?c by_name set_canine (world ?s)
            = (Inr \<lparr>modified_count = Some (- 3)\<rparr>, w')"
    by (simp add: reporting_def answer_def mem_defs)
  have dl: "\<exists>w'. delete_one (reporting (Some (- 3))) ?c by_name (world ?s)
            = (Inr \<lparr>deleted_count = Some (- 3)\<rparr>, w')"
    by (simp add: reporting_def answer_def mem_defs)
  have 1: "fst (update checked (PDict []) (PDict []) True ?s) = Inl (ValueError ''update cannot be empty'')"
    using v by (simp add: update_bound [OF d(1) d(1) c])
  have 2: "fst (update (reporting (Some (- 3))) by_name set_canine True ?s) = Inr (- 3)"
    using u by (auto simp: update_bound [OF d(2) d(3) c] int_or_0_eq)
  have 3: "fst (delete (reporting (Some (- 3))) by_name False ?s) = Inr (- 3)"
    using dl by (auto simp: delete_bound [OF d(2) c] int_or_0_eq)
  from d c 1 2 3 show ?thesis by simp
qed

section \<open>Failures while connecting, and the connection options\<close>

lemma connect_unfold:
  "connect drv config s =
     (case MongoClient drv (client_kwargs config) (world s) of
        (Inl e, w1) \<Rightarrow>
          (case e of
             PyMongoError m \<Rightarrow>
               (Inl (RuntimeError (''[MongoDB] Connection failed: '' @ m) (Some (PyMongoError m))),
                s\<lparr>world := w1\<rparr>)
           | _ \<Rightarrow> (Inl e, s\<lparr>world := w1\<rparr>))
      | (Inr cl, w1) \<Rightarrow>
          (case admin_command drv cl ''ping'' w1 of
             (Inl e, w2) \<Rightarrow>
               (case e of
                  PyMongoError m \<Rightarrow>
                    (Inl (RuntimeError (''[MongoDB] Connection failed: '' @ m) (Some (PyMongoError m))),
                     s\<lparr>self := (self s)\<lparr>client := Some cl\<rparr>, world := w2\<rparr>)
                | _ \<Rightarrow> (Inl e, s\<lparr>self := (self s)\<lparr>client := Some cl\<rparr>, world := w2\<rparr>))
           | (Inr u, w2) \<Rightarrow>
               (case client_getitem drv cl (db_name (self s)) w2 of
                  (Inl e, w3) \<Rightarrow>
                    (case e of
                       PyMongoError m \<Rightarrow>
                         (Inl (RuntimeError (''[MongoDB] Connection failed: '' @ m) (Some (PyMongoError m))),
                          s\<lparr>self := (self s)\<lparr>client := Some cl\<rparr>, world := w3\<rparr>)
                     | _ \<Rightarrow> (Inl e, s\<lparr>self := (self s)\<lparr>client := Some cl\<rparr>, world := w3\<rparr>))
                | (Inr db, w3) \<Rightarrow>
                    (case database_getitem drv db (collection_name (self s)) w3 of
                       (Inl e, w4) \<Rightarrow>
                         (case e of
                            PyMongoError m \<Rightarrow>
                              (Inl (RuntimeError (''[MongoDB] Connection failed: '' @ m) (Some (PyMongoError m))),
                               s\<lparr>self := (self s)\<lparr>client := Some cl\<rparr>, world := w4\<rparr>)
                          | _ \<Rightarrow> (Inl e, s\<lparr>self := (self s)\<lparr>client := Some cl\<rparr>, world := w4\<rparr>))
                     | (Inr co, w4) \<Rightarrow>
                         (Inr (), s\<lparr>self := (self s)\<lparr>client := Some cl, collection := Some co\<rparr>,
                                   world := w4\<rparr>)))))"
  unfolding connect_def try_except_PyMongoError_def py_bind_def driver_call_def set_client_def
    set_collection_def py_raise_def
  by (simp split: prod.splits sum.splits pyexn.splits)

lemma connect_open_fails:
  "MongoClient drv (client_kwargs config) (world s) = (Inl (PyMongoError m), w') \<Longrightarrow>
   connect drv config s =
     (Inl (RuntimeError (''[MongoDB] Connection failed: '' @ m) (Some (PyMongoError m))),
      s\<lparr>world := w'\<rparr>)"
  by (simp add: connect_unfold)

lemma connect_ping_fails:
  "MongoClient drv (client_kwargs config) (world s) = (Inr cl, w1) \<Longrightarrow>
   admin_command drv cl ''ping'' w1 = (Inl (PyMongoError m), w2) \<Longrightarrow>
   connect drv config s =
     (Inl (RuntimeError (''[MongoDB] Connection failed: '' @ m) (Some (PyMongoError m))),
      s\<lparr>self := (self s)\<lparr>client := Some cl\<rparr>, world := w2\<rparr>)"
  by (simp add: connect_unfold)

lemma connect_returns:
  "connect drv config s = (Inr u, s') \<Longrightarrow>
   client (self s') \<noteq> None \<and> collection (self s') \<noteq> None
   \<and> db_name (self s') = db_name (self s) \<and> collection_name (self s') = collection_name (self s)"
  by (auto simp: connect_unfold split: prod.splits sum.splits pyexn.splits)

lemma connect_MongoClient_only_at_kwargs:
  "MongoClient drv' (client_kwargs config) = MongoClient drv (client_kwargs config) \<Longrightarrow>
   connect (drv\<lparr>MongoClient := MongoClient drv'\<rparr>) config s = connect drv config s"
  by (simp add: connect_def)

lemma client_kwargs_credentials:
  "client_kwargs config ''username'' =
     (if username config \<noteq> [] \<and> password config \<noteq> [] then Some (PStr (username config)) else None)"
  "client_kwargs config ''password'' =
     (if username config \<noteq> [] \<and> password config \<noteq> [] then Some (PStr (password config)) else None)"
  "client_kwargs config ''authSource'' =
     (if username config \<noteq> [] \<and> password config \<noteq> [] then Some (PStr (authSource config)) else None)"
  by (simp_all add: client_kwargs_def truthy_str_def Let_def)

lemma client_kwargs_replicaSet:
  "client_kwargs config ''replicaSet'' =
     (case replicaSet config of
        None \<Rightarrow> None
      | Some r \<Rightarrow> if r \<noteq> [] then Some (PStr r) else None)"
  by (simp add: client_kwargs_def truthy_str_def truthy_opt_str_def Let_def split: option.splits)

text \<open>
  C5, as the code has it. When the driver raises a \<open>PyMongoError\<close> while
  the connection is opened or during the ping, the constructor raises one
  \<open>RuntimeError\<close> whose message is \<^verbatim>\<open>[MongoDB] Connection failed: \<close>
  followed by the original message, with the original error as its cause.
  A failure of any other class that the driver raises there is not wrapped:
  it reaches the caller as it is. In every case the world is the one the
  failing call left (nothing is tried again), and the caller gets the
  exception, not an object.
\<close>

theorem connection_failure_is_wrapped:
  "(\<forall>m w'. MongoClient drv (client_kwargs config) (world s) = (Inl (PyMongoError m), w')
      \<longrightarrow> CRUD drv config dbn colln s =
            (Inl (RuntimeError (''[MongoDB] Connection failed: '' @ m) (Some (PyMongoError m))),
             s\<lparr>self := \<lparr>client = None, collection = None, db_name = dbn, collection_name = colln\<rparr>,
               world := w'\<rparr>))
   \<and> (\<forall>cl w1 m w2. MongoClient drv (client_kwargs config) (world s) = (Inr cl, w1)
         \<and> admin_command drv cl ''ping'' w1 = (Inl (PyMongoError m), w2)
      \<longrightarrow> CRUD drv config dbn colln s =
            (Inl (RuntimeError (''[MongoDB] Connection failed: '' @ m) (Some (PyMongoError m))),
             s\<lparr>self := \<lparr>client = Some cl, collection = None, db_name = dbn, collection_name = colln\<rparr>,
               world := w2\<rparr>))
   \<and> (\<forall>e w'. MongoClient drv (client_kwargs config) (world s) = (Inl e, w')
         \<and> (\<forall>m. e \<noteq> PyMongoError m)
      \<longrightarrow> CRUD drv config dbn colln s =
            (Inl e,
             s\<lparr>self := \<lparr>client = None, collection = None, db_name = dbn, collection_name = colln\<rparr>,
               world := w'\<rparr>))
   \<and> (\<forall>cl w1 e w2. MongoClient drv (client_kwargs config) (world s) = (Inr cl, w1)
         \<and> admin_command drv cl ''ping'' w1 = (Inl e, w2)
         \<and> (\<forall>m. e \<noteq> PyMongoError m)
      \<longrightarrow> CRUD drv config dbn colln s =
            (Inl e,
             s\<lparr>self := \<lparr>client = Some cl, collection = None, db_name = dbn, collection_name = colln\<rparr>,
               world := w2\<rparr>))"
proof -
  let ?s = "s\<lparr>self := \<lparr>client = None, collection = None, db_name = dbn, collection_name = colln\<rparr>\<rparr>"
  have open_other: "connect drv config ?s = (Inl e, ?s\<lparr>world := w'\<rparr>)"
    if "MongoClient drv (client_kwargs config) (world s) = (Inl e, w')"
      and "\<forall>m. e \<noteq> PyMongoError m" for e w'
    using that by (cases e) (simp_all add: connect_unfold)
  have ping_other: "connect drv config ?s = (Inl e, ?s\<lparr>self := (self ?s)\<lparr>client := Some cl\<rparr>, world := w2\<rparr>)"
    if "MongoClient drv (client_kwargs config) (world s) = (Inr cl, w1)"
      and "admin_command drv cl ''ping'' w1 = (Inl e, w2)"
      and "\<forall>m. e \<noteq> PyMongoError m" for cl w1 e w2
    using that by (cases e) (simp_all add: connect_unfold)
  show ?thesis
    using open_other ping_other
    by (simp add: CRUD_def init_def connect_open_fails connect_ping_fails)
qed

theorem connection_failure_is_wrapped_witness:
  "CRUD mem default_MongoConfig ''aac'' ''animals'' (state_of unbound (Some 0) []) =
     (Inl (RuntimeError ''[MongoDB] Connection failed: connection lost''
             (Some (PyMongoError ''connection lost''))),
      \<lparr>self = \<lparr>client = None, collection = None, db_name = ''aac'', collection_name = ''animals''\<rparr>,
       stdout = [], world = \<lparr>fault = Some 0, calls = 1, docs = []\<rparr>\<rparr>)
   \<and> CRUD mem default_MongoConfig ''aac'' ''animals'' (state_of unbound (Some 1) []) =
     (Inl (RuntimeError ''[MongoDB] Connection failed: connection lost''
             (Some (PyMongoError ''connection lost''))),
      \<lparr>self = \<lparr>client = Some (), collection = None, db_name = ''aac'', collection_name = ''animals''\<rparr>,
       stdout = [], world = \<lparr>fault = Some 1, calls = 2, docs = []\<rparr>\<rparr>)
   \<and> CRUD checked (default_MongoConfig\<lparr>host := ''db:27017:x''\<rparr>) ''aac'' ''animals''
         (state_of unbound None []) =
     (Inl (ValueError ''Reserved characters such as : must be escaped''),
      \<lparr>self = \<lparr>client = None, collection = None, db_name = ''aac'', collection_name = ''animals''\<rparr>,
       stdout = [], world = \<lparr>fault = None, calls = 0, docs = []\<rparr>\<rparr>)"
proof -
  let ?bad = "default_MongoConfig\<lparr>host := ''db:27017:x''\<rparr>"
  have o: "MongoClient mem kw (world (state_of unbound (Some 0) []))
           = (Inl (PyMongoError ''connection lost''), \<lparr>fault = Some 0, calls = 1, docs = []\<rparr>)" for kw
    by (simp add: mem_defs)
  have o1: "MongoClient mem kw (world (state_of unbound (Some 1) []))
           = (Inr (), \<lparr>fault = Some 1, calls = 1, docs = []\<rparr>)" for kw
    by (simp add: mem_defs)
  have p1: "admin_command mem () ''ping'' \<lparr>fault = Some 1, calls = 1, docs = []\<rparr>
           = (Inl (PyMongoError ''connection lost''), \<lparr>fault = Some 1, calls = 2, docs = []\<rparr>)"
    by (simp add: mem_defs)
  have h: "client_kwargs ?bad ''host'' = Some (PStr ''db:27017:x'')"
    by (simp add: client_kwargs_def default_MongoConfig_def truthy_str_def truthy_opt_str_def Let_def)
  have v: "MongoClient checked (client_kwargs ?bad) (world (state_of unbound None []))
           = (Inl (ValueError ''Reserved characters such as : must be escaped''),
              \<lparr>fault = None, calls = 0, docs = []\<rparr>)"
    by (simp add: checked_def guarded_def validate_host_def h state_of_def)
  from connection_failure_is_wrapped
         [of mem default_MongoConfig "state_of unbound (Some 0) []" "''aac''" "''animals''"] o
  have 1: "CRUD mem default_MongoConfig ''aac'' ''animals'' (state_of unbound (Some 0) []) =
     (Inl (RuntimeError ''[MongoDB] Connection failed: connection lost''
             (Some (PyMongoError ''connection lost''))),
      \<lparr>self = \<lparr>client = None, collection = None, db_name = ''aac'', collection_name = ''animals''\<rparr>,
       stdout = [], world = \<lparr>fault = Some 0, calls = 1, docs = []\<rparr>\<rparr>)"
    by (simp add: state_of_def)
  from connection_failure_is_wrapped
         [of mem default_MongoConfig "state_of unbound (Some 1) []" "''aac''" "''animals''"] o1 p1
  have 2: "CRUD mem default_MongoConfig ''aac'' ''animals'' (state_of unbound (Some 1) []) =
     (Inl (RuntimeError ''[MongoDB] Connection failed: connection lost''
             (Some (PyMongoError ''connection lost''))),
      \<lparr>self = \<lparr>client = Some (), collection = None, db_name = ''aac'', collection_name = ''animals''\<rparr>,
       stdout = [], world = \<lparr>fault = Some 1, calls = 2, docs = []\<rparr>\<rparr>)"
    by (simp add: state_of_def)
  from connection_failure_is_wrapped
         [of checked ?bad "state_of unbound None []" "''aac''" "''animals''"] v
  have 3: "CRUD checked ?bad ''aac'' ''animals'' (state_of unbound None []) =
     (Inl (ValueError ''Reserved characters such as : must be escaped''),
      \<lparr>self = \<lparr>client = None, collection = None, db_name = ''aac'', collection_name = ''animals''\<rparr>,
       stdout = [], world = \<lparr>fault = None, calls = 0, docs = []\<rparr>\<rparr>)"
    by (simp add: state_of_def)
  from 1 2 3 show ?thesis by simp
qed

text \<open>
  The specification's sentence fails for a driver failure that is not a
  \<open>PyMongoError\<close>: the driver rejects a host with two colons with
  \<open>ValueError\<close> while the connection is opened, and the constructor raises
  that \<open>ValueError\<close>, not the wrapped \<open>RuntimeError\<close>.
\<close>

theorem connection_failure_counterexample:
  "fst (MongoClient checked (client_kwargs (default_MongoConfig\<lparr>host := ''db:27017:x''\<rparr>))
          (world (state_of unbound None [])))
     = Inl (ValueError ''Reserved characters such as : must be escaped'')
   \<and> fst (CRUD checked (default_MongoConfig\<lparr>host := ''db:27017:x''\<rparr>) ''aac'' ''animals''
          (state_of unbound None []))
     = Inl (ValueError ''Reserved characters such as : must be escaped'')
   \<and> fst (CRUD checked (default_MongoConfig\<lparr>host := ''db:27017:x''\<rparr>) ''aac'' ''animals''
          (state_of unbound None []))
     \<noteq> Inl (RuntimeError (''[MongoDB] Connection failed: ''
                @ ''Reserved characters such as : must be escaped'')
              (Some (ValueError ''Reserved characters such as : must be escaped'')))"
proof -
  let ?bad = "default_MongoConfig\<lparr>host := ''db:27017:x''\<rparr>"
  have h: "client_kwargs ?bad ''host'' = Some (PStr ''db:27017:x'')"
    by (simp add: client_kwargs_def default_MongoConfig_def truthy_str_def truthy_opt_str_def Let_def)
  have v: "MongoClient checked (client_kwargs ?bad) (world (state_of unbound None []))
           = (Inl (ValueError ''Reserved characters such as : must be escaped''),
              world (state_of unbound None []))"
    by (simp add: checked_def guarded_def validate_host_def h)
  have c: "fst (CRUD checked ?bad ''aac'' ''animals'' (state_of unbound None []))
           = Inl (ValueError ''Reserved characters such as : must be escaped'')"
    using v by (simp add: CRUD_def init_def connect_unfold)
  from v c show ?thesis by simp
qed

text \<open>
  C6. The options handed to \<^verbatim>\<open>MongoClient\<close> hold \<^verbatim>\<open>username\<close>,
  \<^verbatim>\<open>password\<close> and \<^verbatim>\<open>authSource\<close> exactly when both the user name and
  the password of the configuration are non-empty, and none of the three
  otherwise; they hold \<^verbatim>\<open>replicaSet\<close> exactly when the configuration's
  replica set is a non-empty string. These options are what the constructor
  passes: the recording driver receives them, once, and nothing else; for
  any driver, the handle that \<^verbatim>\<open>MongoClient\<close> returns at these options is
  the one stored in \<^verbatim>\<open>self._client\<close>, a failure of \<^verbatim>\<open>MongoClient\<close> at
  these options makes \<^verbatim>\<open>_connect\<close> raise, and \<^verbatim>\<open>_connect\<close> consults
  \<^verbatim>\<open>MongoClient\<close> at no other options.
\<close>

theorem credentials_iff_both_nonempty:
  "(username config \<noteq> [] \<and> password config \<noteq> [] \<longrightarrow>
      client_kwargs config ''username'' = Some (PStr (username config))
      \<and> client_kwargs config ''password'' = Some (PStr (password config))
      \<and> client_kwargs config ''authSource'' = Some (PStr (authSource config)))
   \<and> (username config = [] \<or> password config = [] \<longrightarrow>
      client_kwargs config ''username'' = None
      \<and> client_kwargs config ''password'' = None
      \<and> client_kwargs config ''authSource'' = None)
   \<and> (\<forall>r. replicaSet config = Some r \<and> r \<noteq> [] \<longrightarrow>
      client_kwargs config ''replicaSet'' = Some (PStr r))
   \<and> (replicaSet config = None \<or> replicaSet config = Some [] \<longrightarrow>
      client_kwargs config ''replicaSet'' = None)
   \<and> (MongoClient drv' (client_kwargs config) = MongoClient drv (client_kwargs config) \<longrightarrow>
      connect (drv\<lparr>MongoClient := MongoClient drv'\<rparr>) config s = connect drv config s)
   \<and> world (snd (CRUD recorder config dbn colln s0)) = world s0 @ [client_kwargs config]
   \<and> (\<forall>cl w1. MongoClient drv (client_kwargs config) (world s) = (Inr cl, w1)
        \<longrightarrow> client (self (snd (connect drv config s))) = Some cl)
   \<and> (\<forall>e w1. MongoClient drv (client_kwargs config) (world s) = (Inl e, w1)
        \<longrightarrow> (\<exists>e'. connect drv config s = (Inl e', s\<lparr>world := w1\<rparr>)))"
proof -
  have rec: "world (snd (CRUD recorder config dbn colln s0)) = world s0 @ [client_kwargs config]"
    by (simp add: CRUD_def init_def connect_unfold recorder_def)
  have stored: "client (self (snd (connect drv config s))) = Some cl"
    if "MongoClient drv (client_kwargs config) (world s) = (Inr cl, w1)" for cl w1
    using that by (simp add: connect_unfold split: prod.splits sum.splits pyexn.splits)
  have raised: "\<exists>e'. connect drv config s = (Inl e', s\<lparr>world := w1\<rparr>)"
    if "MongoClient drv (client_kwargs config) (world s) = (Inl e, w1)" for e w1
    using that by (cases e) (simp_all add: connect_unfold)
  show ?thesis
    using rec stored raised
    by (simp add: client_kwargs_credentials client_kwargs_replicaSet connect_MongoClient_only_at_kwargs)
qed

theorem credentials_iff_both_nonempty_witness:
  "client_kwargs (default_MongoConfig\<lparr>username := ''aacuser'', password := ''secret''\<rparr>) ''username''
     = Some (PStr ''aacuser'')
   \<and> client_kwargs (default_MongoConfig\<lparr>username := ''aacuser'', password := ''secret''\<rparr>) ''password''
     = Some (PStr ''secret'')
   \<and> client_kwargs (default_MongoConfig\<lparr>username := ''aacuser'', password := ''secret''\<rparr>) ''authSource''
     = Some (PStr ''aac'')
   \<and> client_kwargs (default_MongoConfig\<lparr>username := ''aacuser''\<rparr>) ''username'' = None
   \<and> client_kwargs (default_MongoConfig\<lparr>username := ''aacuser''\<rparr>) ''authSource'' = None
   \<and> client_kwargs (default_MongoConfig\<lparr>password := ''secret''\<rparr>) ''password'' = None
   \<and> client_kwargs (default_MongoConfig\<lparr>replicaSet := Some ''rs0''\<rparr>) ''replicaSet'' = Some (PStr ''rs0'')
   \<and> client_kwargs (default_MongoConfig\<lparr>replicaSet := Some []\<rparr>) ''replicaSet'' = None
   \<and> client_kwargs default_MongoConfig ''replicaSet'' = None
   \<and> map (\<lambda>kw. (kw ''username'', kw ''password'', kw ''authSource'', kw ''replicaSet''))
         (world (snd (CRUD recorder (default_MongoConfig\<lparr>username := ''aacuser'', password := ''secret''\<rparr>)
                        ''aac'' ''animals'' (fresh []))))
     = [(Some (PStr ''aacuser''), Some (PStr ''secret''), Some (PStr ''aac''), None)]
   \<and> map (\<lambda>kw. (kw ''username'', kw ''password'', kw ''authSource'', kw ''replicaSet''))
         (world (snd (CRUD recorder (default_MongoConfig\<lparr>username := ''aacuser'', replicaSet := Some ''rs0''\<rparr>)
                        ''aac'' ''animals'' (fresh []))))
     = [(None, None, None, Some (PStr ''rs0''))]
   \<and> client (self (snd (connect mem default_MongoConfig (state_of unbound None [])))) = Some ()
   \<and> fst (connect mem default_MongoConfig (state_of unbound (Some 0) []))
     = Inl (RuntimeError ''[MongoDB] Connection failed: connection lost''
              (Some (PyMongoError ''connection lost'')))"
proof -
  let ?both = "default_MongoConfig\<lparr>username := ''aacuser'', password := ''secret''\<rparr>"
  let ?user = "default_MongoConfig\<lparr>username := ''aacuser''\<rparr>"
  let ?pass = "default_MongoConfig\<lparr>password := ''secret''\<rparr>"
  let ?rs = "default_MongoConfig\<lparr>replicaSet := Some ''rs0''\<rparr>"
  let ?blank = "default_MongoConfig\<lparr>replicaSet := Some []\<rparr>"
  let ?urs = "default_MongoConfig\<lparr>username := ''aacuser'', replicaSet := Some ''rs0''\<rparr>"
  let ?s = "state_of unbound None []"
  let ?f = "state_of unbound (Some 0) []"
  have o: "MongoClient mem kw (world ?s) = (Inr (), \<lparr>fault = None, calls = 1, docs = []\<rparr>)" for kw
    by (simp add: mem_defs)
  have e: "MongoClient mem kw (world ?f)
           = (Inl (PyMongoError ''connection lost''), \<lparr>fault = Some 0, calls = 1, docs = []\<rparr>)" for kw
    by (simp add: mem_defs)
  have w: "world (fresh []) = []" by (simp add: fresh_def)
  note both = credentials_iff_both_nonempty [of ?both mem mem ?s "''aac''" "''animals''" "fresh []"]
  note user = credentials_iff_both_nonempty [of ?user mem mem ?s "''aac''" "''animals''" "fresh []"]
  note pass = credentials_iff_both_nonempty [of ?pass mem mem ?s "''aac''" "''animals''" "fresh []"]
  note rs = credentials_iff_both_nonempty [of ?rs mem mem ?s "''aac''" "''animals''" "fresh []"]
  note blank = credentials_iff_both_nonempty [of ?blank mem mem ?s "''aac''" "''animals''" "fresh []"]
  note urs = credentials_iff_both_nonempty [of ?urs mem mem ?s "''aac''" "''animals''" "fresh []"]
  note dflt = credentials_iff_both_nonempty [of default_MongoConfig mem mem ?s "''aac''" "''animals''" "fresh []"]
  note fail = credentials_iff_both_nonempty [of default_MongoConfig mem mem ?f "''aac''" "''animals''" "fresh []"]
  have fb: "username ?both = ''aacuser''" "password ?both = ''secret''" "authSource ?both = ''aac''"
          "replicaSet ?both = None"
    by (simp_all add: default_MongoConfig_def)
  have fu: "username ?user = ''aacuser''" "password ?user = []"
    by (simp_all add: default_MongoConfig_def)
  have fp: "username ?pass = []" "password ?pass = ''secret''"
    by (simp_all add: default_MongoConfig_def)
  have fr: "replicaSet ?rs = Some ''rs0''" "replicaSet ?blank = Some []" "replicaSet default_MongoConfig = None"
    by (simp_all add: default_MongoConfig_def)
  have fur: "username ?urs = ''aacuser''" "password ?urs = []" "replicaSet ?urs = Some ''rs0''"
    by (simp_all add: default_MongoConfig_def)
  have 1: "client_kwargs ?both ''username'' = Some (PStr ''aacuser'')
         \<and> client_kwargs ?both ''password'' = Some (PStr ''secret'')
         \<and> client_kwargs ?both ''authSource'' = Some (PStr ''aac'')
         \<and> client_kwargs ?both ''replicaSet'' = None"
    using both unfolding fb by simp
  have 2: "client_kwargs ?user ''username'' = None \<and> client_kwargs ?user ''authSource'' = None"
    using user unfolding fu by simp
  have 3: "client_kwargs ?pass ''password'' = None"
    using pass unfolding fp by simp
  have 4: "client_kwargs ?rs ''replicaSet'' = Some (PStr ''rs0'')"
    using rs unfolding fr by simp
  have 5: "client_kwargs ?blank ''replicaSet'' = None"
    using blank unfolding fr by simp
  have 6: "client_kwargs default_MongoConfig ''replicaSet'' = None"
    using dflt unfolding fr by simp
  have 7: "client_kwargs ?urs ''username'' = None \<and> client_kwargs ?urs ''password'' = None
         \<and> client_kwargs ?urs ''authSource'' = None
         \<and> client_kwargs ?urs ''replicaSet'' = Some (PStr ''rs0'')"
    using urs unfolding fur by simp
  have 8: "world (snd (CRUD recorder ?both ''aac'' ''animals'' (fresh []))) = [client_kwargs ?both]"
    using both w by simp
  have 9: "world (snd (CRUD recorder ?urs ''aac'' ''animals'' (fresh []))) = [client_kwargs ?urs]"
    using urs w by simp
  have 10: "client (self (snd (connect mem default_MongoConfig ?s))) = Some ()"
    using dflt o by simp
  have "\<exists>e'. connect mem default_MongoConfig ?f = (Inl e', ?f\<lparr>world := \<lparr>fault = Some 0, calls = 1, docs = []\<rparr>\<rparr>)"
    using fail e by simp
  moreover have "connect mem default_MongoConfig ?f =
      (Inl (RuntimeError ''[MongoDB] Connection failed: connection lost''
              (Some (PyMongoError ''connection lost''))),
       ?f\<lparr>world := \<lparr>fault = Some 0, calls = 1, docs = []\<rparr>\<rparr>)"
    using e by (simp add: connect_open_fails)
  ultimately have 11: "fst (connect mem default_MongoConfig ?f)
     = Inl (RuntimeError ''[MongoDB] Connection failed: connection lost''
              (Some (PyMongoError ''connection lost'')))"
    by simp
  show ?thesis
    unfolding 8 9 using 1 2 3 4 5 6 7 10 11 by simp
qed

section \<open>The adapter's fields\<close>

lemma create_keeps_self: "self (snd (create drv d s)) = self s"
proof (cases "isinstance_dict d")
  case False
  then show ?thesis by (simp add: create_not_dict)
next
  case True
  show ?thesis
  proof (cases "collection (self s)")
    case None
    with True show ?thesis by (simp add: create_unbound)
  next
    case (Some c)
    with True show ?thesis
      by (simp add: create_bound split: prod.splits sum.splits pyexn.splits)
  qed
qed

lemma read_keeps_self: "self (snd (read drv q s)) = self s"
proof (cases "isinstance_dict q")
  case False
  then show ?thesis by (simp add: read_not_dict)
next
  case True
  show ?thesis
  proof (cases "collection (self s)")
    case None
    with True show ?thesis by (simp add: read_unbound)
  next
    case (Some c)
    with True show ?thesis
      by (simp add: read_bound split: prod.splits sum.splits pyexn.splits)
  qed
qed

lemma update_keeps_self: "self (snd (update drv q nv many s)) = self s"
proof (cases "isinstance_dict q")
  case False
  then show ?thesis by (simp add: update_not_dict_query)
next
  case q: True
  show ?thesis
  proof (cases "isinstance_dict nv")
    case False
    with q show ?thesis by (simp add: update_not_dict_spec)
  next
    case nv: True
    show ?thesis
    proof (cases "collection (self s)")
      case None
      with q nv show ?thesis by (simp add: update_unbound)
    next
      case (Some c)
      with q nv show ?thesis
        by (simp add: update_bound split: prod.splits sum.splits pyexn.splits)
    qed
  qed
qed

lemma delete_keeps_self: "self (snd (delete drv q many s)) = self s"
proof (cases "isinstance_dict q")
  case False
  then show ?thesis by (simp add: delete_not_dict)
next
  case True
  show ?thesis
  proof (cases "collection (self s)")
    case None
    with True show ?thesis by (simp add: delete_unbound)
  next
    case (Some c)
    with True show ?thesis
      by (simp add: delete_bound split: prod.splits sum.splits pyexn.splits)
  qed
qed

lemma run_op_keeps_self: "self (run_op drv x s) = self s"
  by (cases x) (simp_all add: create_keeps_self read_keeps_self update_keeps_self delete_keeps_self)

lemma run_ops_keeps_self: "self (run_ops drv xs s) = self s"
  by (induction xs arbitrary: s) (simp_all add: run_op_keeps_self)

lemma CRUD_returns:
  assumes "CRUD drv config dbn colln s0 = (Inr obj, s1)"
  shows "self s1 = obj \<and> client obj \<noteq> None \<and> collection obj \<noteq> None
         \<and> db_name obj = dbn \<and> collection_name obj = colln"
proof -
  let ?s = "s0\<lparr>self := \<lparr>client = None, collection = None, db_name = dbn, collection_name = colln\<rparr>\<rparr>"
  obtain r s' where c: "connect drv config ?s = (r, s')"
    by (cases "connect drv config ?s")
  from assms c obtain u where r: "r = Inr u" and s1: "s1 = s'" and obj: "obj = self s'"
    by (cases r) (auto simp: CRUD_def init_def)
  from connect_returns [of drv config ?s u s'] c r
  show ?thesis by (simp add: s1 obj)
qed

text \<open>
  C8. No sequence of \<^verbatim>\<open>create\<close>, \<^verbatim>\<open>read\<close>, \<^verbatim>\<open>update\<close> and
  \<^verbatim>\<open>delete\<close> calls, returning or raising, changes a field of the adapter.
  An adapter that the constructor returned has its connection handle and
  its collection reference set, and its two names are the ones given; after
  any such sequence it is still that object.
\<close>

theorem operations_leave_adapter_unchanged:
  "self (run_ops drv xs s) = self s
   \<and> (\<forall>obj s1. CRUD drv config dbn colln s0 = (Inr obj, s1)
        \<longrightarrow> client obj \<noteq> None \<and> collection obj \<noteq> None
          \<and> db_name obj = dbn \<and> collection_name obj = colln
          \<and> self (run_ops drv xs s1) = obj)"
proof (rule conjI)
  show "self (run_ops drv xs s) = self s"
    by (rule run_ops_keeps_self)
next
  show "\<forall>obj s1. CRUD drv config dbn colln s0 = (Inr obj, s1)
        \<longrightarrow> client obj \<noteq> None \<and> collection obj \<noteq> None
          \<and> db_name obj = dbn \<and> collection_name obj = colln
          \<and> self (run_ops drv xs s1) = obj"
  proof (intro allI impI)
    fix obj s1
    assume made: "CRUD drv config dbn colln s0 = (Inr obj, s1)"
    from CRUD_returns [OF made]
    show "client obj \<noteq> None \<and> collection obj \<noteq> None
          \<and> db_name obj = dbn \<and> collection_name obj = colln
          \<and> self (run_ops drv xs s1) = obj"
      by (simp add: run_ops_keeps_self)
  qed
qed

theorem operations_leave_adapter_unchanged_witness:
  "CRUD mem default_MongoConfig ''aac'' ''animals'' (state_of unbound None []) =
     (Inr animals, \<lparr>self = animals, stdout = [], world = \<lparr>fault = None, calls = 2, docs = []\<rparr>\<rparr>)
   \<and> self (run_ops mem
        [Create rex, Read by_name, Update by_name set_canine True, Create (PStr ''Rex''),
         Delete by_name False, Read by_name]
        \<lparr>self = animals, stdout = [], world = \<lparr>fault = None, calls = 2, docs = []\<rparr>\<rparr>) = animals
   \<and> self (run_ops mem [Create rex, Delete by_name True] (state_of unbound (Some 0) [])) = unbound"
proof -
  have c: "CRUD mem default_MongoConfig ''aac'' ''animals'' (state_of unbound None []) =
     (Inr animals, \<lparr>self = animals, stdout = [], world = \<lparr>fault = None, calls = 2, docs = []\<rparr>\<rparr>)"
    by (simp add: CRUD_def init_def connect_unfold mem_defs)
  from operations_leave_adapter_unchanged
         [of mem "[Create rex, Read by_name, Update by_name set_canine True, Create (PStr ''Rex''),
                   Delete by_name False, Read by_name]"
             "state_of unbound None []" default_MongoConfig "''aac''" "''animals''"
             "state_of unbound None []"] c
  have 1: "self (run_ops mem
        [Create rex, Read by_name, Update by_name set_canine True, Create (PStr ''Rex''),
         Delete by_name False, Read by_name]
        \<lparr>self = animals, stdout = [], world = \<lparr>fault = None, calls = 2, docs = []\<rparr>\<rparr>) = animals"
    by simp
  from operations_leave_adapter_unchanged
         [of mem "[Create rex, Delete by_name True]" "state_of unbound (Some 0) []"
             default_MongoConfig "''aac''" "''animals''" "state_of unbound None []"]
  have 2: "self (run_ops mem [Create rex, Delete by_name True] (state_of unbound (Some 0) [])) = unbound"
    by (simp add: state_of_def)
  from c 1 2 show ?thesis by simp
qed

section \<open>delete, twice\<close>

lemma filter_remove_first: "filter P (remove_first P xs) = tl (filter P xs)"
  by (induction xs) simp_all

lemma min_length_1: "min (length ys) (Suc 0) = (if ys = [] then 0 else Suc 0)"
  by (cases ys) simp_all

lemma mem_delete_many_run:
  assumes "isinstance_dict q" and "collection (self s) = Some c" and "fault (world s) = None"
  shows "delete (mem_driver matches upd) q True s =
           (Inr (int (length (filter (matches q) (docs (world s))))),
            s\<lparr>world := (world s)\<lparr>calls := Suc (calls (world s)),
                                  docs := filter (\<lambda>d. \<not> matches q d) (docs (world s))\<rparr>\<rparr>)"
  using assms
  by (simp add: delete_bound mem_driver_def mem_delete_many_def request_def int_or_0_eq)

lemma mem_delete_one_run:
  assumes "isinstance_dict q" and "collection (self s) = Some c" and "fault (world s) = None"
  shows "delete (mem_driver matches upd) q False s =
           (Inr (if filter (matches q) (docs (world s)) = [] then 0 else 1),
            s\<lparr>world := (world s)\<lparr>calls := Suc (calls (world s)),
                                  docs := remove_first (matches q) (docs (world s))\<rparr>\<rparr>)"
  using assms
  by (simp add: delete_bound mem_driver_def mem_delete_one_def request_def int_or_0_eq min_length_1)

text \<open>
  C7, as the code has it, on the in-memory driver with no failure. With
  \<^verbatim>\<open>many=True\<close> the first \<^verbatim>\<open>delete\<close> returns the number of records that
  match the query and the second returns \<open>0\<close>. With \<^verbatim>\<open>many=False\<close>, the
  default, each call removes at most one record: the first returns \<open>1\<close> when
  some record matches and \<open>0\<close> when none does, and the second returns \<open>0\<close>
  only when at most one record matched.
\<close>

theorem delete_twice:
  assumes "isinstance_dict q" and "collection (self s) = Some c" and "fault (world s) = None"
  shows "fst (delete (mem_driver matches upd) q True s)
           = Inr (int (length (filter (matches q) (docs (world s)))))
       \<and> fst (delete (mem_driver matches upd) q True (snd (delete (mem_driver matches upd) q True s)))
           = Inr 0
       \<and> fst (delete (mem_driver matches upd) q False s)
           = Inr (if length (filter (matches q) (docs (world s))) = 0 then 0 else 1)
       \<and> fst (delete (mem_driver matches upd) q False (snd (delete (mem_driver matches upd) q False s)))
           = Inr (if length (filter (matches q) (docs (world s))) \<le> 1 then 0 else 1)"
proof -
  let ?drv = "mem_driver matches upd"
  let ?ms = "filter (matches q) (docs (world s))"
  let ?s1 = "s\<lparr>world := (world s)\<lparr>calls := Suc (calls (world s)),
                                     docs := filter (\<lambda>d. \<not> matches q d) (docs (world s))\<rparr>\<rparr>"
  let ?s2 = "s\<lparr>world := (world s)\<lparr>calls := Suc (calls (world s)),
                                     docs := remove_first (matches q) (docs (world s))\<rparr>\<rparr>"
  have m1: "delete ?drv q True s = (Inr (int (length ?ms)), ?s1)"
    using assms by (rule mem_delete_many_run)
  have m2: "fst (delete ?drv q True ?s1) = Inr 0"
    using assms by (simp add: mem_delete_many_run [where c = c])
  have o1: "delete ?drv q False s = (Inr (if ?ms = [] then 0 else 1), ?s2)"
    using assms by (rule mem_delete_one_run)
  have o2: "fst (delete ?drv q False ?s2) = Inr (if tl ?ms = [] then 0 else 1)"
    using assms by (simp add: mem_delete_one_run [where c = c] filter_remove_first)
  have tl: "(tl ?ms = []) = (length ?ms \<le> 1)"
    by (cases ?ms) simp_all
  show ?thesis
    using m2 o2 by (simp add: m1 o1 tl)
qed

theorem delete_twice_witness:
  "isinstance_dict by_name
   \<and> collection (self (state_of animals None [rex, PDict [(''name'', PStr ''Tom'')], rex_cat]))
       = Some (''aac'', ''animals'')
   \<and> fault (world (state_of animals None [rex, PDict [(''name'', PStr ''Tom'')], rex_cat])) = None
   \<and> fst (delete mem by_name True (state_of animals None [rex, PDict [(''name'', PStr ''Tom'')], rex_cat]))
       = Inr 2
   \<and> fst (delete mem by_name True
        (snd (delete mem by_name True (state_of animals None [rex, PDict [(''name'', PStr ''Tom'')], rex_cat]))))
       = Inr 0
   \<and> fst (delete mem by_name False (state_of animals None [rex, PDict [(''name'', PStr ''Tom'')], rex_cat]))
       = Inr 1
   \<and> fst (delete mem by_name False
        (snd (delete mem by_name False (state_of animals None [rex, PDict [(''name'', PStr ''Tom'')], rex_cat]))))
       = Inr 1"
proof -
  let ?s = "state_of animals None [rex, PDict [(''name'', PStr ''Tom'')], rex_cat]"
  have d: "isinstance_dict by_name" by (simp add: by_name_def)
  have c: "collection (self ?s) = Some (''aac'', ''animals'')"
    by (simp add: state_of_def animals_def)
  have f: "fault (world ?s) = None" by (simp add: state_of_def)
  have n: "length (filter (field_match by_name) (docs (world ?s))) = 2"
    by (simp add: state_of_def by_name_def rex_def rex_cat_def)
  from delete_twice [OF d c f, of field_match set_fields] n d c f
  show ?thesis by (simp add: mem_def)
qed

text \<open>
  The specification's sentence fails with the default \<^verbatim>\<open>many=False\<close>: when two
  records match, the second call still removes one and returns \<open>1\<close>; and
  when none matches, the first call returns \<open>0\<close>.
\<close>

theorem delete_twice_counterexample:
  "isinstance_dict by_name
   \<and> fst (delete mem by_name False (state_of animals None [rex, rex_cat])) = Inr 1
   \<and> fst (delete mem by_name False (snd (delete mem by_name False (state_of animals None [rex, rex_cat]))))
       = Inr 1
   \<and> fst (delete mem by_name False (state_of animals None [])) = Inr 0"
proof -
  have d: "isinstance_dict by_name" by (simp add: by_name_def)
  have c: "collection (self (state_of animals None ds)) = Some (''aac'', ''animals'')" for ds
    by (simp add: state_of_def animals_def)
  have f: "fault (world (state_of animals None ds)) = None" for ds
    by (simp add: state_of_def)
  have 1: "delete mem by_name False (state_of animals None [rex, rex_cat])
           = (Inr 1, \<lparr>self = animals, stdout = [], world = \<lparr>fault = None, calls = 1, docs = [rex_cat]\<rparr>\<rparr>)"
    unfolding mem_def
    by (simp add: mem_delete_one_run [OF d c f]) (simp add: state_of_def by_name_def rex_def rex_cat_def)
  have 2: "fst (delete mem by_name False
                 \<lparr>self = animals, stdout = [], world = \<lparr>fault = None, calls = 1, docs = [rex_cat]\<rparr>\<rparr>) = Inr 1"
    unfolding mem_def
    by (simp add: mem_delete_one_run [where c = "(''aac'', ''animals'')"] d animals_def)
       (simp add: by_name_def rex_cat_def)
  have 3: "fst (delete mem by_name False (state_of animals None [])) = Inr 0"
    unfolding mem_def
    by (simp add: mem_delete_one_run [OF d c f]) (simp add: state_of_def)
  from d 1 2 3 show ?thesis by simp
qed

end
